theory Spec2Isabelle
  imports Main "HOL-Library.Sublist"
begin

section \<open>Data model\<close>

text \<open>
  Values of TypeScript type \<open>any\<close> that travel as JSON (configuration values, parsed
  WebSocket messages). Numbers are kept as integers: no function modelled here computes
  with them.
\<close>

datatype json =
    JNull
  | JBool bool
  | JNum int
  | JStr string
  | JArr "json list"
  | JObj "(string \<times> json) list"

text \<open>
  \<open>node.data\<close> of an xyflow node (\<open>Record<string, unknown>\<close>). The two fields the code
  reads are typed as the application types them (\<open>AgentType.type : string\<close>,
  \<open>config : Record<string, any>\<close>); an absent field is \<open>None\<close>. A record of type
  \<open>Record<string, any>\<close> is the list of its entries in key order, so \<open>Object.keys\<close> is
  \<open>map fst\<close>. All other fields of \<open>data\<close> (label, description, ...) are \<open>data_rest\<close>.
\<close>

record node_data =
  data_type :: "string option"
  data_config :: "(string \<times> json) list option"
  data_rest :: "(string \<times> json) list"

text \<open>
  An xyflow \<open>Node\<close>: \<open>id\<close>, \<open>type\<close>, \<open>position\<close> and \<open>data\<close>. Field names carry
  their owner's name (\<open>node.id\<close> is \<open>node_id\<close>, \<open>node.type\<close> is \<open>node_type\<close>,
  \<open>data.type\<close> is \<open>data_type\<close>, \<open>data.config\<close> is \<open>data_config\<close>), since a record's
  fields are global names. The source reads
  \<open>node.data?.type\<close>, so \<open>data\<close> may be undefined (\<open>None\<close>). The position is a pair
  of numbers, kept as integers: it is carried along and never computed with.
\<close>

record node =
  node_id :: string
  node_type :: "string option"
  position :: "int \<times> int"
  data :: "node_data option"

text \<open>An xyflow \<open>Edge\<close>: \<open>id\<close>, \<open>source\<close> and \<open>target\<close> (node ids).\<close>

record edge =
  edge_id :: string
  source :: string
  target :: string

section \<open>Flow validation (utils/flowValidation)\<close>

text \<open>\<open>ValidationError.type\<close>, here \<open>error_type\<close>, is \<open>'error' | 'warning'\<close>.\<close>

datatype severity = Error | Warning

record ValidationError =
  error_type :: severity
  message :: string
  nodeId :: "string option"

record ValidationResult =
  isValid :: bool
  errors :: "ValidationError list"

text \<open>
  JavaScript truthiness of an optional string (\<open>!nodeType\<close>): \<open>undefined\<close> and the empty
  string are falsy.
\<close>

definition truthy :: "string option \<Rightarrow> bool" where
  "truthy v = (case v of None \<Rightarrow> False | Some s \<Rightarrow> s \<noteq> [])"

text \<open>Interpolation \<open>${v}\<close> of an optional string in a template literal.\<close>

definition interpolate :: "string option \<Rightarrow> string" where
  "interpolate v = (case v of None \<Rightarrow> ''undefined'' | Some s \<Rightarrow> s)"

text \<open>\<open>node.data?.type\<close>\<close>

definition nodeType :: "node \<Rightarrow> string option" where
  "nodeType n = (case data n of None \<Rightarrow> None | Some d \<Rightarrow> data_type d)"

text \<open>\<open>node.data?.config && Object.keys(node.data.config).length > 0\<close>\<close>

definition hasConfig :: "node \<Rightarrow> bool" where
  "hasConfig n =
     (case data n of
        None \<Rightarrow> False
      | Some d \<Rightarrow>
          (case data_config d of
             None \<Rightarrow> False
           | Some c \<Rightarrow> length (map fst c) > 0))"

definition emptyFlowError :: ValidationError where
  "emptyFlowError =
     \<lparr>error_type = Error, message = ''Flow must contain at least one node'', nodeId = None\<rparr>"

definition noAgentTypeError :: "node \<Rightarrow> ValidationError" where
  "noAgentTypeError n =
     \<lparr>error_type = Error,
      message = ''Node '' @ node_id n @ '' has no agent type'',
      nodeId = Some (node_id n)\<rparr>"

definition noConfigWarning :: "node \<Rightarrow> ValidationError" where
  "noConfigWarning n =
     \<lparr>error_type = Warning,
      message = ''Node '' @ node_id n @ '' ('' @ interpolate (nodeType n) @ '') has no configuration'',
      nodeId = Some (node_id n)\<rparr>"

definition notConnectedWarning :: "node \<Rightarrow> ValidationError" where
  "notConnectedWarning n =
     \<lparr>error_type = Warning,
      message = ''Node '' @ node_id n @ '' ('' @ interpolate (nodeType n)
                  @ '') is not connected to any other nodes'',
      nodeId = Some (node_id n)\<rparr>"

text \<open>
  One iteration of \<open>for (const node of nodes)\<close>: the two checks, each pushing onto the
  \<open>errors\<close> array.
\<close>

definition checkNode :: "ValidationError list \<Rightarrow> node \<Rightarrow> ValidationError list" where
  "checkNode errs n =
     (let errs1 = (if \<not> truthy (nodeType n) then errs @ [noAgentTypeError n] else errs)
      in (if \<not> hasConfig n then errs1 @ [noConfigWarning n] else errs1))"

text \<open>
  \<open>connectedNodeIds\<close> is a JavaScript \<open>Set<string>\<close>: a duplicate-free sequence in
  insertion order. \<open>add\<close> leaves the set alone when the member is present, \<open>size\<close> is
  the length and \<open>has\<close> is membership.
\<close>

definition set_add :: "string list \<Rightarrow> string \<Rightarrow> string list" where
  "set_add s x = (if x \<in> set s then s else s @ [x])"

definition addEdgeEnds :: "string list \<Rightarrow> edge \<Rightarrow> string list" where
  "addEdgeEnds s e = set_add (set_add s (source e)) (target e)"

definition connectedNodeIds :: "edge list \<Rightarrow> string list" where
  "connectedNodeIds es = foldl addEdgeEnds [] es"

definition disconnectedNodes :: "node list \<Rightarrow> string list \<Rightarrow> node list" where
  "disconnectedNodes ns connected = filter (\<lambda>n. node_id n \<notin> set connected) ns"

definition pushNotConnected :: "ValidationError list \<Rightarrow> node \<Rightarrow> ValidationError list" where
  "pushNotConnected errs n = errs @ [notConnectedWarning n]"

definition validateFlow :: "node list \<Rightarrow> edge list \<Rightarrow> ValidationResult" where
  "validateFlow ns es =
     (if length ns = 0 then \<lparr>isValid = False, errors = [emptyFlowError]\<rparr>
      else
        (let errs = foldl checkNode [] ns;
             connected = connectedNodeIds es;
             errs' =
               (if length ns > 1 \<and> length connected < length ns
                then foldl pushNotConnected errs (disconnectedNodes ns connected)
                else errs);
             hasErrors = list_ex (\<lambda>e. error_type e = Error) errs'
         in \<lparr>isValid = \<not> hasErrors, errors = errs'\<rparr>))"

subsection \<open>Flow validation on the heap\<close>

text \<open>
  \<open>validateFlow\<close> once more, with the objects it touches kept in a heap: the arrays of
  nodes and of edges it is handed by reference, the \<open>errors\<close> arrays and the \<open>Set\<close>
  objects that calls allocate. An object's address is its index. The result object holds
  \<open>isValid\<close> and the address of its \<open>errors\<close> array.
\<close>

record heap =
  nodeArrays :: "node list list"
  edgeArrays :: "edge list list"
  errorArrays :: "ValidationError list list"
  stringSets :: "string list list"

record resultObject =
  res_isValid :: bool
  res_errors :: nat

text \<open>\<open>const errors: ValidationError[] = []\<close> and \<open>new Set<string>()\<close>\<close>

definition newErrorArray :: "heap \<Rightarrow> nat \<times> heap" where
  "newErrorArray h = (length (errorArrays h), h\<lparr>errorArrays := errorArrays h @ [[]]\<rparr>)"

definition newStringSet :: "heap \<Rightarrow> nat \<times> heap" where
  "newStringSet h = (length (stringSets h), h\<lparr>stringSets := stringSets h @ [[]]\<rparr>)"

text \<open>\<open>errors.push(x)\<close> and \<open>connectedNodeIds.add(x)\<close>\<close>

definition pushError :: "nat \<Rightarrow> ValidationError \<Rightarrow> heap \<Rightarrow> heap" where
  "pushError a x h = h\<lparr>errorArrays := (errorArrays h)[a := errorArrays h ! a @ [x]]\<rparr>"

definition addToSet :: "nat \<Rightarrow> string \<Rightarrow> heap \<Rightarrow> heap" where
  "addToSet a x h = h\<lparr>stringSets := (stringSets h)[a := set_add (stringSets h ! a) x]\<rparr>"

text \<open>The body of the loop over the nodes.\<close>

definition checkNodeOnHeap :: "nat \<Rightarrow> heap \<Rightarrow> node \<Rightarrow> heap" where
  "checkNodeOnHeap errs h n =
     (let h1 = (if \<not> truthy (nodeType n) then pushError errs (noAgentTypeError n) h else h)
      in (if \<not> hasConfig n then pushError errs (noConfigWarning n) h1 else h1))"

text \<open>The body of the loop over the edges.\<close>

definition addEdgeEndsOnHeap :: "nat \<Rightarrow> heap \<Rightarrow> edge \<Rightarrow> heap" where
  "addEdgeEndsOnHeap connected h e = addToSet connected (target e) (addToSet connected (source e) h)"

definition validateFlowOnHeap :: "nat \<Rightarrow> nat \<Rightarrow> heap \<Rightarrow> resultObject \<times> heap" where
  "validateFlowOnHeap nodesRef edgesRef h =
     (case newErrorArray h of
        (errs, h1) \<Rightarrow>
          if length (nodeArrays h1 ! nodesRef) = 0
          then (\<lparr>res_isValid = False, res_errors = errs\<rparr>, pushError errs emptyFlowError h1)
          else
            (let h2 = foldl (checkNodeOnHeap errs) h1 (nodeArrays h1 ! nodesRef)
             in case newStringSet h2 of
                  (connected, h3) \<Rightarrow>
                    (let h4 = foldl (addEdgeEndsOnHeap connected) h3 (edgeArrays h3 ! edgesRef);
                         h5 =
                           (if length (nodeArrays h4 ! nodesRef) > 1
                               \<and> length (stringSets h4 ! connected)
                                   < length (nodeArrays h4 ! nodesRef)
                            then
                              foldl (\<lambda>h n. pushError errs (notConnectedWarning n) h) h4
                                (filter (\<lambda>n. node_id n \<notin> set (stringSets h4 ! connected))
                                   (nodeArrays h4 ! nodesRef))
                            else h4);
                         hasErrors = list_ex (\<lambda>e. error_type e = Error) (errorArrays h5 ! errs)
                     in (\<lparr>res_isValid = \<not> hasErrors, res_errors = errs\<rparr>, h5))))"

text \<open>The \<open>ValidationResult\<close> a caller reads from a result object.\<close>

definition readResult :: "heap \<Rightarrow> resultObject \<Rightarrow> ValidationResult" where
  "readResult h r = \<lparr>isValid = res_isValid r, errors = errorArrays h ! res_errors r\<rparr>"

section \<open>The run handler of the sidebar (components/Sidebar/Sidebar)\<close>

text \<open>\<open>Array.prototype.join\<close> on strings.\<close>

fun join :: "string \<Rightarrow> string list \<Rightarrow> string" where
  "join sep [] = []"
| "join sep [x] = x"
| "join sep (x # y # ys) = x @ sep @ join sep (y # ys)"

text \<open>
  \<open>getValidationMessage\<close>: the messages of the error-severity entries, one per line.
\<close>

definition getValidationMessage :: "ValidationResult \<Rightarrow> string" where
  "getValidationMessage result =
     (if isValid result then ''Flow is valid and ready to run''
      else
        (let errorMessages = map message (filter (\<lambda>e. error_type e = Error) (errors result))
         in join [CHR 0x0A] errorMessages))"

text \<open>
  What \<open>handleRunFlow\<close> does, in order: it sets the component's \<open>validationMessage\<close>,
  arms a timer whose callback runs later, or calls the \<open>onRunFlow\<close> property.
\<close>

datatype sidebar_effect =
    SetValidationMessage string
  | SetTimeout sidebar_effect nat
  | OnRunFlow

text \<open>The cross mark U+274C that starts the failure message, as its UTF-8 bytes.\<close>

definition crossMark :: string where
  "crossMark = [CHR 0xE2, CHR 0x9D, CHR 0x8C]"

definition handleRunFlow :: "node list \<Rightarrow> edge list \<Rightarrow> sidebar_effect list" where
  "handleRunFlow ns es =
     (let validation = validateFlow ns es in
      if \<not> isValid validation then
        (let errorMsg =
               join [CHR 0x0A]
                 (map message (filter (\<lambda>e. error_type e = Error) (errors validation)))
         in [SetValidationMessage
               (crossMark @ '' Flow validation failed:'' @ [CHR 0x0A] @ errorMsg),
             SetTimeout (SetValidationMessage []) 5000])
      else [SetValidationMessage [], OnRunFlow])"

section \<open>The flow store (store/flowStore)\<close>

datatype execution_status = Pending | Running | Completed | Failed

record ExecutionResult =
  exec_id :: string
  exec_flow_id :: string
  exec_status :: execution_status
  exec_result :: "json option"
  exec_error :: "string option"
  exec_logs :: "string option"
  exec_duration_ms :: "int option"
  exec_created_at :: string
  exec_started_at :: "string option"
  exec_ended_at :: "string option"

record FlowSummary =
  summary_id :: string
  summary_name :: string
  summary_description :: "string option"

record FlowState =
  currentFlowId :: "string option"
  currentFlowName :: string
  currentFlowDescription :: string
  nodes :: "node list"
  edges :: "edge list"
  flows :: "FlowSummary list"
  isLoadingFlows :: bool
  currentExecution :: "ExecutionResult option"
  executionHistory :: "ExecutionResult list"

definition initialState :: FlowState where
  "initialState =
     \<lparr>currentFlowId = None,
      currentFlowName = ''Untitled Flow'',
      currentFlowDescription = [],
      nodes = [],
      edges = [],
      flows = [],
      isLoadingFlows = False,
      currentExecution = None,
      executionHistory = []\<rparr>"

definition setNodes :: "node list \<Rightarrow> FlowState \<Rightarrow> FlowState" where
  "setNodes ns state = state\<lparr>nodes := ns\<rparr>"

definition setEdges :: "edge list \<Rightarrow> FlowState \<Rightarrow> FlowState" where
  "setEdges es state = state\<lparr>edges := es\<rparr>"

text \<open>
  The spread \<open>{...node.data}\<close>: the fields of \<open>data\<close>, none when \<open>data\<close> is undefined.
\<close>

definition spreadData :: "node_data option \<Rightarrow> node_data" where
  "spreadData d =
     (case d of
        None \<Rightarrow> \<lparr>data_type = None, data_config = None, data_rest = []\<rparr>
      | Some x \<Rightarrow> x)"

text \<open>
  \<open>updateNodeConfig\<close>: \<open>state.nodes.map\<close> with the node of the given id rebuilt as
  \<open>{...node, data: {...node.data, config}}\<close>, then \<open>set({ nodes: updatedNodes })\<close>. The
  parameter \<open>nodeId\<close> is \<open>nid\<close> here.
\<close>

definition updateNodeConfig :: "string \<Rightarrow> (string \<times> json) list \<Rightarrow> FlowState \<Rightarrow> FlowState" where
  "updateNodeConfig nid config state =
     (let updatedNodes =
            map (\<lambda>node.
                   if node_id node = nid
                   then node\<lparr>data := Some ((spreadData (data node))\<lparr>data_config := Some config\<rparr>)\<rparr>
                   else node)
                (nodes state)
      in state\<lparr>nodes := updatedNodes\<rparr>)"

section \<open>The live run path (hooks/useFlowExecution, App)\<close>

text \<open>
  What \<open>runFlow\<close> and \<open>App.handleRunFlow\<close> do, in order: the hook's and the component's
  state setters, the store's \<open>setCurrentExecution\<close>, and the request
  \<open>POST /api/execution/{flowId}/run\<close> of \<open>executionAPI.run\<close>.
\<close>

datatype app_effect =
    SetError "string option"
  | SetIsRunning bool
  | ExecutionRun string
  | SetCurrentExecution ExecutionResult
  | SetShowExecutionMonitor bool

text \<open>
  The error a rejected request throws: \<open>err.response?.data?.message\<close> and \<open>err.message\<close>.
\<close>

record api_error =
  response_message :: "string option"
  error_message :: "string option"

text \<open>
  \<open>runFlow\<close>. The backend's answer to the run request is a parameter: it returns the
  execution or the request throws. The \<open>finally\<close> block runs on both paths.
\<close>

definition runFlow ::
    "(string \<Rightarrow> api_error + ExecutionResult) \<Rightarrow> FlowState
      \<Rightarrow> app_effect list \<times> ExecutionResult option" where
  "runFlow run state =
     (if \<not> truthy (currentFlowId state) then ([SetError (Some ''No flow selected'')], None)
      else
        (let flowId = interpolate (currentFlowId state);
             started = [SetIsRunning True, SetError None, ExecutionRun flowId]
         in case run flowId of
              Inr execution \<Rightarrow>
                (started @ [SetCurrentExecution execution, SetIsRunning False], Some execution)
            | Inl err \<Rightarrow>
                (let msg =
                       (if truthy (response_message err) then interpolate (response_message err)
                        else if truthy (error_message err) then interpolate (error_message err)
                        else ''Failed to run flow'')
                 in (started @ [SetError (Some msg), SetIsRunning False], None))))"

text \<open>
  \<open>App.handleRunFlow\<close>, the \<open>onRun\<close> of the header's Run button: \<open>runFlow\<close>, then the
  execution monitor is shown if an execution came back.
\<close>

definition App_handleRunFlow ::
    "(string \<Rightarrow> api_error + ExecutionResult) \<Rightarrow> FlowState \<Rightarrow> app_effect list" where
  "App_handleRunFlow run state =
     (case runFlow run state of
        (effects, Some execution) \<Rightarrow> effects @ [SetShowExecutionMonitor True]
      | (effects, None) \<Rightarrow> effects)"

section \<open>The WebSocket client (api/client \<open>wsAPI\<close>, hooks/useWebSocket)\<close>

text \<open>
  \<open>WebSocket.readyState\<close>, console output, and exceptions as values (the text of the
  error).
\<close>

datatype ready_state = CONNECTING | OPEN | CLOSING | CLOSED

datatype console_line = Log string | Err string

type_synonym exn = string

text \<open>
  The state the handlers run in. The browser's part: the console, every \<open>WebSocket\<close>
  constructed so far (its URL and \<open>readyState\<close>; an object's handle is its index), the
  frames sent, the pending timeouts (id and delay in milliseconds; the only callback ever
  armed is \<open>() => connect()\<close>) and the next timeout id. The hook's part: \<open>wsRef.current\<close>,
  \<open>isConnected\<close> and \<open>reconnectTimeoutRef.current\<close>. \<open>user\<close> is the state of the
  component that supplies the callbacks.
\<close>

record 'u world =
  console :: "console_line list"
  sockets :: "(string \<times> ready_state) list"
  sent :: "(nat \<times> string) list"
  timers :: "(nat \<times> nat) list"
  nextTimerId :: nat
  wsRef :: "nat option"
  isConnected :: bool
  reconnectTimeoutRef :: "nat option"
  user :: 'u

text \<open>
  A statement or a call: it returns normally (\<open>None\<close>) or throws (\<open>Some e\<close>), and leaves
  a state either way.
\<close>

type_synonym 'u comp = "'u world \<Rightarrow> exn option \<times> 'u world"

definition andThen :: "'u comp \<Rightarrow> 'u comp \<Rightarrow> 'u comp" where
  "andThen f g w = (case f w of (None, w') \<Rightarrow> g w' | (Some e, w') \<Rightarrow> (Some e, w'))"

definition tryCatch :: "'u comp \<Rightarrow> (exn \<Rightarrow> 'u comp) \<Rightarrow> 'u comp" where
  "tryCatch body handler w =
     (case body w of (None, w') \<Rightarrow> (None, w') | (Some e, w') \<Rightarrow> handler e w')"

definition consoleLog :: "string \<Rightarrow> 'u comp" where
  "consoleLog s w = (None, w\<lparr>console := console w @ [Log s]\<rparr>)"

definition consoleError :: "string \<Rightarrow> 'u comp" where
  "consoleError s w = (None, w\<lparr>console := console w @ [Err s]\<rparr>)"

subsection \<open>\<open>wsAPI.connectExecution\<close>\<close>

text \<open>
  \<open>API_BASE = import.meta.env.VITE_API_URL || 'http://localhost:8000'\<close>, from the build
  setting.
\<close>

definition API_BASE :: "string option \<Rightarrow> string" where
  "API_BASE env = (case env of None \<Rightarrow> ''http://localhost:8000''
                   | Some s \<Rightarrow> if s = [] then ''http://localhost:8000'' else s)"

text \<open>\<open>API_BASE.replace(/^https?:\/\//, '')\<close>\<close>

definition stripScheme :: "string \<Rightarrow> string" where
  "stripScheme base =
     (if prefix ''https://'' base then drop 8 base
      else if prefix ''http://'' base then drop 7 base
      else base)"

definition wsUrl :: "string \<Rightarrow> string \<Rightarrow> string" where
  "wsUrl base executionId =
     (let protocol = (if prefix ''https'' base then ''wss'' else ''ws'')
      in protocol @ ''://'' @ stripScheme base @ ''/ws/execution/'' @ executionId)"

text \<open>The check mark U+2705 of the log lines, as its UTF-8 bytes.\<close>

definition checkMark :: string where
  "checkMark = [CHR 0xE2, CHR 0x9C, CHR 0x85]"

definition ws_onopen :: "string \<Rightarrow> 'u comp" where
  "ws_onopen executionId = consoleLog (checkMark @ '' Connected to execution '' @ executionId)"

text \<open>
  \<open>ws.onmessage\<close>: \<open>JSON.parse\<close> and the \<open>onMessage\<close> callback inside one \<open>try\<close>, the
  \<open>catch\<close> logging the error. \<open>JSON.parse\<close> is the platform's and is a parameter: it
  returns the value or throws.
\<close>

definition ws_onmessage ::
    "(string \<Rightarrow> exn + json) \<Rightarrow> (json \<Rightarrow> 'u comp) \<Rightarrow> string \<Rightarrow> 'u comp" where
  "ws_onmessage jsonParse onMessage eventData =
     tryCatch
       (\<lambda>w. case jsonParse eventData of
               Inl e \<Rightarrow> (Some e, w)
             | Inr d \<Rightarrow> onMessage d w)
       (\<lambda>e. consoleError (''Failed to parse WebSocket message: '' @ e))"

definition ws_onerror :: "'u comp option \<Rightarrow> 'u comp" where
  "ws_onerror onError =
     andThen (consoleError ''WebSocket error:'')
       (case onError of None \<Rightarrow> (\<lambda>w. (None, w)) | Some f \<Rightarrow> f)"

definition ws_onclose :: "string \<Rightarrow> 'u comp" where
  "ws_onclose executionId =
     consoleLog (crossMark @ '' Disconnected from execution '' @ executionId)"

text \<open>
  \<open>connectExecution\<close> constructs the socket for \<open>wsUrl\<close> and returns it. The constructor
  is the platform's: \<open>newWebSocket url\<close> is the exception it throws for that URL, if any.
\<close>

definition connectExecution ::
    "(string \<Rightarrow> exn option) \<Rightarrow> string \<Rightarrow> string \<Rightarrow> 'u world \<Rightarrow> (exn + nat) \<times> 'u world" where
  "connectExecution newWebSocket base executionId w =
     (let url = wsUrl base executionId in
      case newWebSocket url of
        Some e \<Rightarrow> (Inl e, w)
      | None \<Rightarrow> (Inr (length (sockets w)), w\<lparr>sockets := sockets w @ [(url, CONNECTING)]\<rparr>))"

subsection \<open>\<open>useWebSocket\<close>\<close>

text \<open>The optional callbacks of \<open>UseWebSocketOptions\<close>; they act on the user's state.\<close>

record 'u options =
  onMessage :: "(json \<Rightarrow> 'u \<Rightarrow> exn option \<times> 'u) option"
  onError :: "('u \<Rightarrow> exn option \<times> 'u) option"
  onConnect :: "('u \<Rightarrow> exn option \<times> 'u) option"
  onDisconnect :: "('u \<Rightarrow> exn option \<times> 'u) option"

text \<open>\<open>options.callback?.()\<close>\<close>

definition callUser :: "('u \<Rightarrow> exn option \<times> 'u) option \<Rightarrow> 'u comp" where
  "callUser cb w =
     (case cb of
        None \<Rightarrow> (None, w)
      | Some f \<Rightarrow> (case f (user w) of (r, u) \<Rightarrow> (r, w\<lparr>user := u\<rparr>)))"

text \<open>\<open>wsRef.current?.readyState\<close>\<close>

definition readyStateOf :: "'u world \<Rightarrow> nat option \<Rightarrow> ready_state option" where
  "readyStateOf w r =
     (case r of
        None \<Rightarrow> None
      | Some k \<Rightarrow> if k < length (sockets w) then Some (snd (sockets w ! k)) else None)"

definition setIsConnected :: "bool \<Rightarrow> 'u comp" where
  "setIsConnected b w = (None, w\<lparr>isConnected := b\<rparr>)"

text \<open>The wrapped \<open>onopen\<close>: the original handler, \<open>setIsConnected(true)\<close>, \<open>onConnect\<close>.\<close>

definition hook_onopen :: "string \<Rightarrow> 'u options \<Rightarrow> 'u comp" where
  "hook_onopen executionId opts =
     andThen (ws_onopen executionId)
       (andThen (setIsConnected True) (callUser (onConnect opts)))"

text \<open>\<open>reconnectTimeoutRef.current = setTimeout(() => { connect() }, 3000)\<close>\<close>

definition scheduleReconnect :: "'u comp" where
  "scheduleReconnect w =
     (None, w\<lparr>timers := timers w @ [(nextTimerId w, 3000)],
               reconnectTimeoutRef := Some (nextTimerId w),
               nextTimerId := Suc (nextTimerId w)\<rparr>)"

text \<open>
  The wrapped \<open>onclose\<close>: the original handler, \<open>setIsConnected(false)\<close>, \<open>onDisconnect\<close>,
  then the reconnect timer.
\<close>

definition hook_onclose :: "string \<Rightarrow> 'u options \<Rightarrow> 'u comp" where
  "hook_onclose executionId opts =
     andThen (ws_onclose executionId)
       (andThen (setIsConnected False)
          (andThen (callUser (onDisconnect opts)) scheduleReconnect))"

text \<open>
  The callbacks \<open>connect\<close> hands to \<open>connectExecution\<close>:
  \<open>(data) => options.onMessage?.(data)\<close> and \<open>(error) => options.onError?.(error)\<close>.
\<close>

definition hook_onmessage :: "(string \<Rightarrow> exn + json) \<Rightarrow> 'u options \<Rightarrow> string \<Rightarrow> 'u comp" where
  "hook_onmessage jsonParse opts =
     ws_onmessage jsonParse (\<lambda>d. callUser (map_option (\<lambda>f. f d) (onMessage opts)))"

definition hook_onerror :: "'u options \<Rightarrow> 'u comp" where
  "hook_onerror opts = ws_onerror (Some (callUser (onError opts)))"

text \<open>
  \<open>connect\<close>: nothing without an execution id or while the current socket is open;
  otherwise a new socket from \<open>connectExecution\<close>, stored in \<open>wsRef\<close>; a constructor
  error is caught and logged.
\<close>

definition connect ::
    "(string \<Rightarrow> exn option) \<Rightarrow> string \<Rightarrow> string option \<Rightarrow> 'u comp" where
  "connect newWebSocket base executionId w =
     (case executionId of
        None \<Rightarrow> (None, w)
      | Some i \<Rightarrow>
          if i = [] \<or> readyStateOf w (wsRef w) = Some OPEN then (None, w)
          else
            tryCatch
              (\<lambda>w. case connectExecution newWebSocket base i w of
                      (Inl e, w') \<Rightarrow> (Some e, w')
                    | (Inr ws, w') \<Rightarrow> (None, w'\<lparr>wsRef := Some ws\<rparr>))
              (\<lambda>e. consoleError (''Failed to connect WebSocket: '' @ e))
              w)"

text \<open>\<open>ws.close()\<close> starts the closing handshake of a socket that is not closed yet.\<close>

definition closeSocket :: "nat \<Rightarrow> 'u world \<Rightarrow> 'u world" where
  "closeSocket k w =
     (if k < length (sockets w) \<and> snd (sockets w ! k) \<noteq> CLOSED
      then w\<lparr>sockets := (sockets w)[k := (fst (sockets w ! k), CLOSING)]\<rparr>
      else w)"

definition disconnect :: "'u comp" where
  "disconnect w =
     (let w1 = (case reconnectTimeoutRef w of
                  None \<Rightarrow> w
                | Some t \<Rightarrow>
                    if t = 0 then w
                    else w\<lparr>timers := filter (\<lambda>p. fst p \<noteq> t) (timers w)\<rparr>);
          w2 = (case wsRef w1 of
                  None \<Rightarrow> w1
                | Some k \<Rightarrow> (closeSocket k w1)\<lparr>wsRef := None\<rparr>)
      in (None, w2\<lparr>isConnected := False\<rparr>))"

text \<open>\<open>send\<close>; \<open>JSON.stringify\<close> is a parameter.\<close>

definition send :: "(json \<Rightarrow> string) \<Rightarrow> json \<Rightarrow> 'u comp" where
  "send stringify d w =
     (case wsRef w of
        None \<Rightarrow> (None, w)
      | Some k \<Rightarrow>
          if readyStateOf w (Some k) = Some OPEN
          then (None, w\<lparr>sent := sent w @ [(k, stringify d)]\<rparr>)
          else (None, w))"

subsection \<open>Events\<close>

text \<open>
  What the browser delivers to a socket the hook created, and the timeouts it fires. The
  browser sets \<open>readyState\<close> before it calls \<open>onopen\<close> or \<open>onclose\<close>; an exception that
  escapes a handler ends that handler only, so the state it left is kept.
\<close>

datatype event =
    SocketOpened nat
  | MessageArrived nat string
  | SocketClosed nat
  | TimerFired nat

definition setReadyState :: "nat \<Rightarrow> ready_state \<Rightarrow> 'u world \<Rightarrow> 'u world" where
  "setReadyState k r w =
     (if k < length (sockets w)
      then w\<lparr>sockets := (sockets w)[k := (fst (sockets w ! k), r)]\<rparr>
      else w)"

definition dispatch ::
    "(string \<Rightarrow> exn option) \<Rightarrow> (string \<Rightarrow> exn + json) \<Rightarrow> string \<Rightarrow> string option
      \<Rightarrow> 'u options \<Rightarrow> event \<Rightarrow> 'u world \<Rightarrow> 'u world" where
  "dispatch newWebSocket jsonParse base executionId opts ev w =
     (case ev of
        SocketOpened k \<Rightarrow>
          snd (hook_onopen (interpolate executionId) opts (setReadyState k OPEN w))
      | MessageArrived k eventData \<Rightarrow>
          snd (hook_onmessage jsonParse opts eventData w)
      | SocketClosed k \<Rightarrow>
          snd (hook_onclose (interpolate executionId) opts (setReadyState k CLOSED w))
      | TimerFired t \<Rightarrow>
          if t \<in> fst ` set (timers w)
          then snd (connect newWebSocket base executionId
                      (w\<lparr>timers := filter (\<lambda>p. fst p \<noteq> t) (timers w)\<rparr>))
          else w)"

definition runEvents ::
    "(string \<Rightarrow> exn option) \<Rightarrow> (string \<Rightarrow> exn + json) \<Rightarrow> string \<Rightarrow> string option
      \<Rightarrow> 'u options \<Rightarrow> event list \<Rightarrow> 'u world \<Rightarrow> 'u world" where
  "runEvents newWebSocket jsonParse base executionId opts evs w =
     foldl (\<lambda>w ev. dispatch newWebSocket jsonParse base executionId opts ev w) w evs"

subsection \<open>A reconnect scenario\<close>

text \<open>
  The hook at mount: no socket, no timer, \<open>wsRef.current = null\<close>,
  \<open>isConnected = false\<close>. Timeout ids start at 1.
\<close>

definition initialWorld :: "'u \<Rightarrow> 'u world" where
  "initialWorld u =
     \<lparr>console = [], sockets = [], sent = [], timers = [], nextTimerId = 1, wsRef = None,
      isConnected = False, reconnectTimeoutRef = None, user = u\<rparr>"

text \<open>The only callback supplied records every message it is given.\<close>

definition recordingOptions :: "(json list) options" where
  "recordingOptions =
     \<lparr>onMessage = Some (\<lambda>d u. (None, u @ [d])), onError = None, onConnect = None,
      onDisconnect = None\<rparr>"

text \<open>
  The hook connects for execution \<open>exec-1\<close>; the socket opens, one message arrives that
  \<open>JSON.parse\<close> reads as \<open>msg\<close>, the socket closes, and the reconnect timer fires.
\<close>

definition reconnectScenario :: "json \<Rightarrow> (json list) world" where
  "reconnectScenario msg =
     runEvents (\<lambda>url. None) (\<lambda>payload. Inr msg) ''http://localhost:8000'' (Some ''exec-1'')
       recordingOptions
       [SocketOpened 0, MessageArrived 0 ''payload'', SocketClosed 0, TimerFired 1]
       (snd (connect (\<lambda>url. None) ''http://localhost:8000'' (Some ''exec-1'')
               (initialWorld [])))"

section \<open>Properties of flow validation\<close>

subsection \<open>The loops as list functions\<close>

lemma validateFlow_empty:
  "validateFlow [] es = \<lparr>isValid = False, errors = [emptyFlowError]\<rparr>"
  by (simp add: validateFlow_def)

lemma foldl_checkNode:
  "foldl checkNode acc ns = acc @ concat (map (checkNode []) ns)"
proof (induction ns arbitrary: acc)
  case Nil
  show ?case by simp
next
  case (Cons n ns)
  have step: "checkNode acc n = acc @ checkNode [] n"
    by (simp add: checkNode_def Let_def)
  have "foldl checkNode (checkNode acc n) ns =
          checkNode acc n @ concat (map (checkNode []) ns)"
    by (rule Cons.IH)
  then show ?case
    by (simp add: step)
qed

lemma foldl_pushNotConnected:
  "foldl pushNotConnected acc ns = acc @ map notConnectedWarning ns"
  by (induction ns arbitrary: acc) (simp_all add: pushNotConnected_def)

lemma set_set_add: "set (set_add s x) = insert x (set s)"
  by (auto simp: set_add_def)

lemma distinct_set_add: "distinct s \<Longrightarrow> distinct (set_add s x)"
  by (simp add: set_add_def)

lemma set_foldl_addEdgeEnds:
  "set (foldl addEdgeEnds s es) = set s \<union> source ` set es \<union> target ` set es"
  by (induction es arbitrary: s) (auto simp: addEdgeEnds_def set_set_add)

lemma distinct_foldl_addEdgeEnds:
  "distinct s \<Longrightarrow> distinct (foldl addEdgeEnds s es)"
  by (induction es arbitrary: s) (simp_all add: addEdgeEnds_def distinct_set_add)

lemma set_connectedNodeIds:
  "set (connectedNodeIds es) = source ` set es \<union> target ` set es"
  by (simp add: connectedNodeIds_def set_foldl_addEdgeEnds)

lemma distinct_connectedNodeIds: "distinct (connectedNodeIds es)"
  by (simp add: connectedNodeIds_def distinct_foldl_addEdgeEnds)

lemma validateFlow_errors:
  "ns \<noteq> [] \<Longrightarrow>
   errors (validateFlow ns es) =
     concat (map (checkNode []) ns) @
     (if 1 < length ns \<and> length (connectedNodeIds es) < length ns
      then map notConnectedWarning (disconnectedNodes ns (connectedNodeIds es))
      else [])"
  by (simp add: validateFlow_def Let_def foldl_checkNode foldl_pushNotConnected)

lemma validateFlow_isValid:
  "isValid (validateFlow ns es) =
     (\<not> list_ex (\<lambda>e. error_type e = Error) (errors (validateFlow ns es)))"
  by (simp add: validateFlow_def Let_def emptyFlowError_def)

subsection \<open>Telling the kinds of entries apart\<close>

lemma error_type_simps:
  "error_type (noAgentTypeError n) = Error"
  "error_type (noConfigWarning n) = Warning"
  "error_type (notConnectedWarning n) = Warning"
  "error_type emptyFlowError = Error"
  by (simp_all add: noAgentTypeError_def noConfigWarning_def notConnectedWarning_def
      emptyFlowError_def)

lemma suffix_last: "suffix xs ys \<Longrightarrow> xs \<noteq> [] \<Longrightarrow> last ys = last xs"
  by (auto simp: suffix_def)

lemma noConfig_message_suffix:
  "suffix '' has no configuration'' (message (noConfigWarning n))"
proof -
  have "message (noConfigWarning n) =
          (''Node '' @ node_id n @ '' ('' @ interpolate (nodeType n) @ '')'')
          @ '' has no configuration''"
    by (simp add: noConfigWarning_def)
  then show ?thesis
    unfolding suffix_def by blast
qed

lemma notConnected_message_suffix:
  "\<not> suffix '' has no configuration'' (message (notConnectedWarning n))"
proof
  assume "suffix '' has no configuration'' (message (notConnectedWarning n))"
  then have "last (message (notConnectedWarning n)) = last '' has no configuration''"
    by (rule suffix_last) simp
  then show False
    by (simp add: notConnectedWarning_def)
qed

lemma notConnected_message_own_suffix:
  "suffix '' is not connected to any other nodes'' (message (notConnectedWarning n))"
proof -
  have "message (notConnectedWarning n) =
          (''Node '' @ node_id n @ '' ('' @ interpolate (nodeType n) @ '')'')
          @ '' is not connected to any other nodes''"
    by (simp add: notConnectedWarning_def)
  then show ?thesis
    unfolding suffix_def by blast
qed

lemma not_truthy_iff: "(\<not> truthy v) = (v = None \<or> v = Some [])"
  by (cases v) (simp_all add: truthy_def)

lemma hasConfig_iff:
  "hasConfig n = (\<exists>d c. data n = Some d \<and> data_config d = Some c \<and> c \<noteq> [])"
  by (auto simp: hasConfig_def split: option.splits)

lemma checkNode_entries:
  "e \<in> set (checkNode [] n) \<Longrightarrow> e = noAgentTypeError n \<or> e = noConfigWarning n"
  by (auto simp: checkNode_def Let_def split: if_splits)

lemma checkNode_not_notConnected:
  "e \<in> set (checkNode [] n) \<Longrightarrow>
   \<not> suffix '' is not connected to any other nodes'' (message e)"
proof
  assume e: "e \<in> set (checkNode [] n)"
    and s: "suffix '' is not connected to any other nodes'' (message e)"
  from s have l: "last (message e) = last '' is not connected to any other nodes''"
    by (rule suffix_last) simp
  from e have "e = noAgentTypeError n \<or> e = noConfigWarning n"
    by (rule checkNode_entries)
  then show False
    using l by (auto simp: noAgentTypeError_def noConfigWarning_def)
qed

lemma filter_Error_checkNode:
  "filter (\<lambda>e. error_type e = Error) (concat (map (checkNode []) ns)) =
     map noAgentTypeError (filter (\<lambda>n. \<not> truthy (nodeType n)) ns)"
  by (induction ns) (simp_all add: checkNode_def Let_def error_type_simps)

lemma filter_noConfig_checkNode:
  "filter (\<lambda>e. error_type e = Warning \<and> suffix '' has no configuration'' (message e))
      (concat (map (checkNode []) ns)) =
     map noConfigWarning (filter (\<lambda>n. \<not> hasConfig n) ns)"
  by (induction ns)
     (simp_all add: checkNode_def Let_def error_type_simps noConfig_message_suffix)

lemma filter_Error_notConnected:
  "filter (\<lambda>e. error_type e = Error) (map notConnectedWarning ws) = []"
  by (induction ws) (simp_all add: error_type_simps)

lemma filter_noConfig_notConnected:
  "filter (\<lambda>e. error_type e = Warning \<and> suffix '' has no configuration'' (message e))
      (map notConnectedWarning ws) = []"
  by (induction ws) (simp_all add: notConnected_message_suffix)

lemma filter_notConnected_checkNode:
  "filter (\<lambda>e. suffix '' is not connected to any other nodes'' (message e))
      (concat (map (checkNode []) ns)) = []"
  by (auto simp: filter_empty_conv dest: checkNode_not_notConnected)

lemma filter_notConnected_map:
  "filter (\<lambda>e. suffix '' is not connected to any other nodes'' (message e))
      (map notConnectedWarning ws) = map notConnectedWarning ws"
  by (induction ws) (simp_all add: notConnected_message_own_suffix)

lemma validateFlow_entries:
  assumes "e \<in> set (errors (validateFlow ns es))"
  shows "e = emptyFlowError \<or>
         (\<exists>n\<in>set ns. e = noAgentTypeError n \<or> e = noConfigWarning n \<or> e = notConnectedWarning n)"
proof (cases "ns = []")
  case True
  with assms show ?thesis by (simp add: validateFlow_def)
next
  case False
  with assms have
    "e \<in> set (concat (map (checkNode []) ns)) \<or>
     e \<in> notConnectedWarning ` set (disconnectedNodes ns (connectedNodeIds es))"
    by (auto simp: validateFlow_errors split: if_splits)
  then show ?thesis
  proof
    assume "e \<in> set (concat (map (checkNode []) ns))"
    then obtain n where "n \<in> set ns" "e \<in> set (checkNode [] n)" by auto
    then show ?thesis using checkNode_entries by blast
  next
    assume "e \<in> notConnectedWarning ` set (disconnectedNodes ns (connectedNodeIds es))"
    then show ?thesis by (auto simp: disconnectedNodes_def)
  qed
qed

lemma validateFlow_isValid_nodes:
  "ns \<noteq> [] \<Longrightarrow> isValid (validateFlow ns es) = (\<forall>n\<in>set ns. truthy (nodeType n))"
proof -
  assume ne: "ns \<noteq> []"
  have "isValid (validateFlow ns es) =
          (filter (\<lambda>e. error_type e = Error) (errors (validateFlow ns es)) = [])"
    by (simp add: validateFlow_isValid list_ex_iff filter_empty_conv)
  also have "\<dots> = (filter (\<lambda>n. \<not> truthy (nodeType n)) ns = [])"
    using ne
    by (simp add: validateFlow_errors filter_Error_checkNode filter_Error_notConnected)
  also have "\<dots> = (\<forall>n\<in>set ns. truthy (nodeType n))"
    by (simp add: filter_empty_conv)
  finally show ?thesis .
qed

lemmas validate_eval =
  validateFlow_def Let_def checkNode_def truthy_def nodeType_def hasConfig_def
  connectedNodeIds_def addEdgeEnds_def set_add_def disconnectedNodes_def pushNotConnected_def
  noAgentTypeError_def noConfigWarning_def notConnectedWarning_def emptyFlowError_def
  interpolate_def

subsection \<open>Disconnected nodes\<close>

text \<open>
  When every edge endpoint is the id of a node of the flow, the size test
  \<open>connectedNodeIds.size < nodes.length\<close> fails only if no node is disconnected, and the
  warnings are exactly those of the nodes that no edge touches.
\<close>

lemma connected_size_guard:
  assumes wf: "\<forall>e\<in>set es. source e \<in> node_id ` set ns \<and> target e \<in> node_id ` set ns"
    and full: "\<not> length (connectedNodeIds es) < length ns"
  shows "disconnectedNodes ns (connectedNodeIds es) = []"
proof -
  let ?c = "set (connectedNodeIds es)"
  let ?ids = "node_id ` set ns"
  have sub: "?c \<subseteq> ?ids"
    using wf by (auto simp: set_connectedNodeIds)
  have "card ?ids \<le> card (set ns)" by (rule card_image_le) simp
  also have "\<dots> \<le> length ns" by (rule card_length)
  also have "\<dots> \<le> length (connectedNodeIds es)" using full by simp
  also have "\<dots> = card ?c"
    by (simp add: distinct_card distinct_connectedNodeIds)
  finally have "card ?ids \<le> card ?c" .
  with sub have "?c = ?ids"
    by (simp add: card_seteq)
  then show ?thesis
    by (auto simp: disconnectedNodes_def filter_empty_conv)
qed

lemma validateFlow_notConnected_wellformed:
  assumes "1 < length ns"
    and "\<forall>e\<in>set es. source e \<in> node_id ` set ns \<and> target e \<in> node_id ` set ns"
  shows "filter (\<lambda>e. suffix '' is not connected to any other nodes'' (message e))
           (errors (validateFlow ns es)) =
         map notConnectedWarning
           (filter (\<lambda>n. node_id n \<notin> source ` set es \<union> target ` set es) ns)"
proof -
  from assms(1) have ne: "ns \<noteq> []" by auto
  show ?thesis
  proof (cases "length (connectedNodeIds es) < length ns")
    case True
    with assms(1) ne show ?thesis
      by (simp add: validateFlow_errors filter_notConnected_checkNode filter_notConnected_map
          disconnectedNodes_def set_connectedNodeIds)
  next
    case False
    from connected_size_guard [OF assms(2) False]
    have "filter (\<lambda>n. node_id n \<notin> source ` set es \<union> target ` set es) ns = []"
      by (simp add: disconnectedNodes_def set_connectedNodeIds)
    with False ne show ?thesis
      by (simp add: validateFlow_errors filter_notConnected_checkNode)
  qed
qed

text \<open>
  Claim C2 (for every graph with more than one node, a "not connected" warning for exactly
  the nodes that are neither source nor target of any edge). The size test counts ids
  that are no node's: with nodes \<open>a\<close>, \<open>c\<close> and the single edge \<open>a \<rightarrow> b\<close> (the state the
  store is in after \<open>handleDeleteNode\<close> removed \<open>b\<close>, which leaves the edges alone), the set
  has two members, the test \<open>2 < 2\<close> fails and \<open>c\<close>, which no edge touches, gets no
  warning: the result has no entry at all.
\<close>

theorem validateFlow_dangling_edge_no_warning:
  "validateFlow
     [\<lparr>node_id = ''a'', node_type = Some ''agent'', position = (0, 0),
        data = Some \<lparr>data_type = Some ''trading'', data_config = Some [(''symbol'', JStr ''BTC'')],
                     data_rest = []\<rparr>\<rparr>,
      \<lparr>node_id = ''c'', node_type = Some ''agent'', position = (50, 50),
        data = Some \<lparr>data_type = Some ''risk'', data_config = Some [(''limit'', JNum 3)],
                     data_rest = []\<rparr>\<rparr>]
     [\<lparr>edge_id = ''e1'', source = ''a'', target = ''b''\<rparr>]
   = \<lparr>isValid = True, errors = []\<rparr>"
  by (simp add: validate_eval)

subsection \<open>No cycle detection\<close>

text \<open>
  Claim C3: validation performs no cycle detection. A flow with at least one node, whose
  nodes all carry a non-empty agent type, is valid whatever its edges are; every entry of
  the result is the empty-flow error or one of the three per-node findings (no agent type,
  no configuration, not connected), so none is about a cycle; and neither \<open>isValid\<close> nor
  the error-severity entries depend on the edges at all.
\<close>

theorem validateFlow_no_cycle_detection:
  "(ns \<noteq> [] \<and> (\<forall>n\<in>set ns. nodeType n \<noteq> None \<and> nodeType n \<noteq> Some [])
      \<longrightarrow> isValid (validateFlow ns es))
   \<and> (\<forall>e\<in>set (errors (validateFlow ns es)).
        e = emptyFlowError \<or>
        (\<exists>n\<in>set ns. e = noAgentTypeError n \<or> e = noConfigWarning n
                       \<or> e = notConnectedWarning n))
   \<and> isValid (validateFlow ns es) = isValid (validateFlow ns es')
   \<and> filter (\<lambda>e. error_type e = Error) (errors (validateFlow ns es)) =
     filter (\<lambda>e. error_type e = Error) (errors (validateFlow ns es'))"
proof (intro conjI impI ballI)
  assume "ns \<noteq> [] \<and> (\<forall>n\<in>set ns. nodeType n \<noteq> None \<and> nodeType n \<noteq> Some [])"
  then show "isValid (validateFlow ns es)"
    by (auto simp: validateFlow_isValid_nodes truthy_def split: option.splits)
next
  fix e assume "e \<in> set (errors (validateFlow ns es))"
  then show "e = emptyFlowError \<or>
        (\<exists>n\<in>set ns. e = noAgentTypeError n \<or> e = noConfigWarning n
                       \<or> e = notConnectedWarning n)"
    by (rule validateFlow_entries)
next
  show "isValid (validateFlow ns es) = isValid (validateFlow ns es')"
    by (cases "ns = []") (simp_all add: validateFlow_isValid_nodes validateFlow_empty)
next
  show "filter (\<lambda>e. error_type e = Error) (errors (validateFlow ns es)) =
     filter (\<lambda>e. error_type e = Error) (errors (validateFlow ns es'))"
    by (cases "ns = []")
       (simp_all add: validateFlow_empty validateFlow_errors filter_Error_checkNode
         filter_Error_notConnected)
qed

text \<open>The two-node cycle \<open>a \<rightarrow> b \<rightarrow> a\<close> is valid.\<close>

theorem validateFlow_no_cycle_detection_witness:
  "isValid (validateFlow
     [\<lparr>node_id = ''a'', node_type = Some ''agent'', position = (0, 0),
        data = Some \<lparr>data_type = Some ''trading'', data_config = None, data_rest = []\<rparr>\<rparr>,
      \<lparr>node_id = ''b'', node_type = Some ''agent'', position = (50, 50),
        data = Some \<lparr>data_type = Some ''risk'', data_config = None, data_rest = []\<rparr>\<rparr>]
     [\<lparr>edge_id = ''e1'', source = ''a'', target = ''b''\<rparr>,
      \<lparr>edge_id = ''e2'', source = ''b'', target = ''a''\<rparr>])"
proof -
  let ?ns = "[\<lparr>node_id = ''a'', node_type = Some ''agent'', position = (0, 0),
        data = Some \<lparr>data_type = Some ''trading'', data_config = None, data_rest = []\<rparr>\<rparr>,
      \<lparr>node_id = ''b'', node_type = Some ''agent'', position = (50, 50),
        data = Some \<lparr>data_type = Some ''risk'', data_config = None, data_rest = []\<rparr>\<rparr>]"
  have "?ns \<noteq> [] \<and> (\<forall>n\<in>set ?ns. nodeType n \<noteq> None \<and> nodeType n \<noteq> Some [])"
    by (simp add: nodeType_def)
  then show ?thesis
    using validateFlow_no_cycle_detection [of ?ns] by blast
qed

subsection \<open>Validity\<close>

text \<open>
  Claim C4: \<open>isValid\<close> is true if and only if the returned \<open>errors\<close> hold no entry of
  severity \<open>error\<close>; a result whose entries are all warnings is valid.
\<close>

theorem validateFlow_isValid_iff_no_error:
  "(isValid (validateFlow ns es) \<longleftrightarrow>
      \<not> (\<exists>e\<in>set (errors (validateFlow ns es)). error_type e = Error))
   \<and> ((\<forall>e\<in>set (errors (validateFlow ns es)). error_type e = Warning)
        \<longrightarrow> isValid (validateFlow ns es))"
  by (auto simp: validateFlow_isValid list_ex_iff)

text \<open>A single node with an agent type and no configuration: one warning, and valid.\<close>

theorem validateFlow_isValid_iff_no_error_witness:
  "errors (validateFlow
     [\<lparr>node_id = ''a'', node_type = Some ''agent'', position = (0, 0),
        data = Some \<lparr>data_type = Some ''trading'', data_config = None, data_rest = []\<rparr>\<rparr>] [])
   = [\<lparr>error_type = Warning, message = ''Node a (trading) has no configuration'',
       nodeId = Some ''a''\<rparr>]
   \<and> isValid (validateFlow
     [\<lparr>node_id = ''a'', node_type = Some ''agent'', position = (0, 0),
        data = Some \<lparr>data_type = Some ''trading'', data_config = None, data_rest = []\<rparr>\<rparr>] [])"
proof -
  let ?ns = "[\<lparr>node_id = ''a'', node_type = Some ''agent'', position = (0, 0),
        data = Some \<lparr>data_type = Some ''trading'', data_config = None, data_rest = []\<rparr>\<rparr>]"
  have e: "errors (validateFlow ?ns []) =
     [\<lparr>error_type = Warning, message = ''Node a (trading) has no configuration'',
       nodeId = Some ''a''\<rparr>]"
    by (simp add: validate_eval)
  then have "\<forall>e\<in>set (errors (validateFlow ?ns [])). error_type e = Warning"
    by simp
  then have "isValid (validateFlow ?ns [])"
    using validateFlow_isValid_iff_no_error [of ?ns "[]"] by blast
  with e show ?thesis by simp
qed

subsection \<open>The empty flow\<close>

text \<open>
  Claim C5, as amended: for every graph with an empty node set the result is
  \<open>isValid = false\<close> with exactly one entry, of severity \<open>error\<close>, without a node id and
  with the message \<open>Flow must contain at least one node\<close> (capital F); the edges are not
  looked at.
\<close>

theorem validateFlow_empty_nodes:
  "validateFlow [] es =
     \<lparr>isValid = False,
      errors = [\<lparr>error_type = Error, message = ''Flow must contain at least one node'',
                 nodeId = None\<rparr>]\<rparr>"
  by (simp add: validateFlow_def emptyFlowError_def)

text \<open>
  The message of claim C5 as it is written, with a lower-case \<open>f\<close>, is not the message
  the code returns.
\<close>

theorem validateFlow_empty_message_counterexample:
  "validateFlow [] [] \<noteq>
     \<lparr>isValid = False,
      errors = [\<lparr>error_type = Error, message = ''flow must contain at least one node'',
                 nodeId = None\<rparr>]\<rparr>"
  by (simp add: validateFlow_def emptyFlowError_def)

subsection \<open>All findings are collected\<close>

lemma filter_noType_conv:
  "(\<lambda>n. \<not> truthy (nodeType n)) =
   (\<lambda>n. case data n of None \<Rightarrow> True
             | Some d \<Rightarrow> data_type d = None \<or> data_type d = Some [])"
  by (rule ext) (simp add: not_truthy_iff nodeType_def split: option.splits)

lemma filter_noConfig_conv:
  "(\<lambda>n. \<not> hasConfig n) =
   (\<lambda>n. case data n of None \<Rightarrow> True
             | Some d \<Rightarrow> data_config d = None \<or> data_config d = Some [])"
  by (rule ext) (simp add: hasConfig_def split: option.splits)

lemma noAgentTypeError_conv:
  "noAgentTypeError =
   (\<lambda>n. \<lparr>error_type = Error, message = ''Node '' @ node_id n @ '' has no agent type'',
          nodeId = Some (node_id n)\<rparr>)"
  by (rule ext) (simp add: noAgentTypeError_def)

lemma noConfigWarning_conv:
  "noConfigWarning =
   (\<lambda>n. \<lparr>error_type = Warning,
          message = ''Node '' @ node_id n @ '' (''
            @ (case data n of None \<Rightarrow> ''undefined''
               | Some d \<Rightarrow> (case data_type d of None \<Rightarrow> ''undefined'' | Some t \<Rightarrow> t))
            @ '') has no configuration'',
          nodeId = Some (node_id n)\<rparr>)"
  by (rule ext) (simp add: noConfigWarning_def interpolate_def nodeType_def split: option.splits)

text \<open>
  Claim C6: for a non-empty node list nothing stops at the first finding. The entries of
  severity \<open>error\<close> are, in node order, one "has no agent type" entry for each node whose
  \<open>data\<close> is missing or whose \<open>data.type\<close> is missing or empty; the "has no configuration"
  warnings are, in node order, one for each node whose \<open>data\<close> is missing or whose
  \<open>data.config\<close> is missing or has no entries. Both are stated on the node's data and with
  the entries written out.
\<close>

theorem validateFlow_collects_all:
  assumes "ns \<noteq> []"
  shows "filter (\<lambda>e. error_type e = Error) (errors (validateFlow ns es)) =
           map (\<lambda>n. \<lparr>error_type = Error,
                       message = ''Node '' @ node_id n @ '' has no agent type'',
                       nodeId = Some (node_id n)\<rparr>)
             (filter (\<lambda>n. case data n of None \<Rightarrow> True
                            | Some d \<Rightarrow> data_type d = None \<or> data_type d = Some []) ns)
       \<and> filter (\<lambda>e. error_type e = Warning \<and> suffix '' has no configuration'' (message e))
            (errors (validateFlow ns es)) =
           map (\<lambda>n. \<lparr>error_type = Warning,
                       message = ''Node '' @ node_id n @ '' (''
                         @ (case data n of None \<Rightarrow> ''undefined''
                            | Some d \<Rightarrow> (case data_type d of None \<Rightarrow> ''undefined''
                                        | Some t \<Rightarrow> t))
                         @ '') has no configuration'',
                       nodeId = Some (node_id n)\<rparr>)
             (filter (\<lambda>n. case data n of None \<Rightarrow> True
                            | Some d \<Rightarrow> data_config d = None \<or> data_config d = Some []) ns)"
proof
  have "filter (\<lambda>e. error_type e = Error) (errors (validateFlow ns es)) =
          map noAgentTypeError (filter (\<lambda>n. \<not> truthy (nodeType n)) ns)"
    using assms
    by (simp add: validateFlow_errors filter_Error_checkNode filter_Error_notConnected)
  then show "filter (\<lambda>e. error_type e = Error) (errors (validateFlow ns es)) =
           map (\<lambda>n. \<lparr>error_type = Error,
                       message = ''Node '' @ node_id n @ '' has no agent type'',
                       nodeId = Some (node_id n)\<rparr>)
             (filter (\<lambda>n. case data n of None \<Rightarrow> True
                            | Some d \<Rightarrow> data_type d = None \<or> data_type d = Some []) ns)"
    by (simp only: filter_noType_conv noAgentTypeError_conv)
  have "filter (\<lambda>e. error_type e = Warning \<and> suffix '' has no configuration'' (message e))
            (errors (validateFlow ns es)) =
           map noConfigWarning (filter (\<lambda>n. \<not> hasConfig n) ns)"
    using assms
    by (simp add: validateFlow_errors filter_noConfig_checkNode filter_noConfig_notConnected)
  then show "filter (\<lambda>e. error_type e = Warning \<and> suffix '' has no configuration'' (message e))
            (errors (validateFlow ns es)) =
           map (\<lambda>n. \<lparr>error_type = Warning,
                       message = ''Node '' @ node_id n @ '' (''
                         @ (case data n of None \<Rightarrow> ''undefined''
                            | Some d \<Rightarrow> (case data_type d of None \<Rightarrow> ''undefined''
                                        | Some t \<Rightarrow> t))
                         @ '') has no configuration'',
                       nodeId = Some (node_id n)\<rparr>)
             (filter (\<lambda>n. case data n of None \<Rightarrow> True
                            | Some d \<Rightarrow> data_config d = None \<or> data_config d = Some []) ns)"
    by (simp only: filter_noConfig_conv noConfigWarning_conv)
qed

text \<open>
  Three nodes: \<open>a\<close> without data, \<open>b\<close> with an empty agent type and an empty
  configuration, \<open>c\<close> complete. Both offending nodes get their error and their warning.
\<close>

theorem validateFlow_collects_all_witness:
  "filter (\<lambda>e. error_type e = Error) (errors (validateFlow
     [\<lparr>node_id = ''a'', node_type = Some ''agent'', position = (0, 0), data = None\<rparr>,
      \<lparr>node_id = ''b'', node_type = Some ''agent'', position = (50, 50),
        data = Some \<lparr>data_type = Some [], data_config = Some [], data_rest = []\<rparr>\<rparr>,
      \<lparr>node_id = ''c'', node_type = Some ''agent'', position = (9, 9),
        data = Some \<lparr>data_type = Some ''risk'', data_config = Some [(''limit'', JNum 3)],
                     data_rest = []\<rparr>\<rparr>]
     [])) =
   [\<lparr>error_type = Error, message = ''Node a has no agent type'', nodeId = Some ''a''\<rparr>,
    \<lparr>error_type = Error, message = ''Node b has no agent type'', nodeId = Some ''b''\<rparr>]
   \<and> filter (\<lambda>e. error_type e = Warning \<and> suffix '' has no configuration'' (message e))
       (errors (validateFlow
     [\<lparr>node_id = ''a'', node_type = Some ''agent'', position = (0, 0), data = None\<rparr>,
      \<lparr>node_id = ''b'', node_type = Some ''agent'', position = (50, 50),
        data = Some \<lparr>data_type = Some [], data_config = Some [], data_rest = []\<rparr>\<rparr>,
      \<lparr>node_id = ''c'', node_type = Some ''agent'', position = (9, 9),
        data = Some \<lparr>data_type = Some ''risk'', data_config = Some [(''limit'', JNum 3)],
                     data_rest = []\<rparr>\<rparr>]
     [])) =
   [\<lparr>error_type = Warning, message = ''Node a (undefined) has no configuration'',
     nodeId = Some ''a''\<rparr>,
    \<lparr>error_type = Warning, message = ''Node b () has no configuration'',
     nodeId = Some ''b''\<rparr>]"
proof -
  let ?ns = "[\<lparr>node_id = ''a'', node_type = Some ''agent'', position = (0, 0), data = None\<rparr>,
      \<lparr>node_id = ''b'', node_type = Some ''agent'', position = (50, 50),
        data = Some \<lparr>data_type = Some [], data_config = Some [], data_rest = []\<rparr>\<rparr>,
      \<lparr>node_id = ''c'', node_type = Some ''agent'', position = (9, 9),
        data = Some \<lparr>data_type = Some ''risk'', data_config = Some [(''limit'', JNum 3)],
                     data_rest = []\<rparr>\<rparr>]"
  have "?ns \<noteq> []" by simp
  from validateFlow_collects_all [OF this, of "[]"] show ?thesis
    by simp
qed

subsection \<open>Determinism\<close>

text \<open>
  The heap version computes what the function on values computes: the result object's
  flag and the contents of its fresh \<open>errors\<close> array are those of \<open>validateFlow\<close> on the
  contents of the two argument arrays, and the heap gains that array and, unless the node
  array is empty, the set of connected ids; nothing else changes.
\<close>

lemma checkNodeOnHeap_eq:
  "a < length (errorArrays h) \<Longrightarrow>
   checkNodeOnHeap a h n = h\<lparr>errorArrays := (errorArrays h)[a := checkNode (errorArrays h ! a) n]\<rparr>"
  by (simp add: checkNodeOnHeap_def checkNode_def pushError_def Let_def)

lemma foldl_checkNodeOnHeap:
  "a < length (errorArrays h) \<Longrightarrow>
   foldl (checkNodeOnHeap a) h ns =
     h\<lparr>errorArrays := (errorArrays h)[a := foldl checkNode (errorArrays h ! a) ns]\<rparr>"
proof (induction ns arbitrary: h)
  case Nil
  then show ?case by simp
next
  case (Cons n ns)
  let ?h = "h\<lparr>errorArrays := (errorArrays h)[a := checkNode (errorArrays h ! a) n]\<rparr>"
  have "a < length (errorArrays ?h)" using Cons.prems by simp
  from Cons.IH [OF this] Cons.prems show ?case
    by (simp add: checkNodeOnHeap_eq)
qed

lemma addEdgeEndsOnHeap_eq:
  "a < length (stringSets h) \<Longrightarrow>
   addEdgeEndsOnHeap a h e = h\<lparr>stringSets := (stringSets h)[a := addEdgeEnds (stringSets h ! a) e]\<rparr>"
  by (simp add: addEdgeEndsOnHeap_def addEdgeEnds_def addToSet_def)

lemma foldl_addEdgeEndsOnHeap:
  "a < length (stringSets h) \<Longrightarrow>
   foldl (addEdgeEndsOnHeap a) h es =
     h\<lparr>stringSets := (stringSets h)[a := foldl addEdgeEnds (stringSets h ! a) es]\<rparr>"
proof (induction es arbitrary: h)
  case Nil
  then show ?case by simp
next
  case (Cons e es)
  let ?h = "h\<lparr>stringSets := (stringSets h)[a := addEdgeEnds (stringSets h ! a) e]\<rparr>"
  have "a < length (stringSets ?h)" using Cons.prems by simp
  from Cons.IH [OF this] Cons.prems show ?case
    by (simp add: addEdgeEndsOnHeap_eq)
qed

lemma foldl_pushNotConnectedOnHeap:
  "a < length (errorArrays h) \<Longrightarrow>
   foldl (\<lambda>h n. pushError a (notConnectedWarning n) h) h ns =
     h\<lparr>errorArrays := (errorArrays h)[a := foldl pushNotConnected (errorArrays h ! a) ns]\<rparr>"
proof (induction ns arbitrary: h)
  case Nil
  then show ?case by simp
next
  case (Cons n ns)
  let ?h = "pushError a (notConnectedWarning n) h"
  have "a < length (errorArrays ?h)" using Cons.prems by (simp add: pushError_def)
  from Cons.IH [OF this] Cons.prems show ?case
    by (simp add: pushError_def pushNotConnected_def)
qed

lemma validateFlowOnHeap_eq:
  "validateFlowOnHeap nodesRef edgesRef h =
     (\<lparr>res_isValid = isValid (validateFlow (nodeArrays h ! nodesRef) (edgeArrays h ! edgesRef)),
       res_errors = length (errorArrays h)\<rparr>,
      h\<lparr>errorArrays := errorArrays h
            @ [errors (validateFlow (nodeArrays h ! nodesRef) (edgeArrays h ! edgesRef))],
        stringSets := stringSets h
            @ (if nodeArrays h ! nodesRef = [] then []
               else [connectedNodeIds (edgeArrays h ! edgesRef)])\<rparr>)"
proof (cases "nodeArrays h ! nodesRef = []")
  case True
  then show ?thesis
    by (simp add: validateFlowOnHeap_def newErrorArray_def pushError_def validateFlow_def)
next
  case False
  let ?a = "length (errorArrays h)"
  let ?c = "length (stringSets h)"
  let ?h1 = "h\<lparr>errorArrays := errorArrays h @ [[]]\<rparr>"
  let ?ns = "nodeArrays h ! nodesRef"
  let ?es = "edgeArrays h ! edgesRef"
  have h2: "foldl (checkNodeOnHeap ?a) ?h1 ?ns =
              h\<lparr>errorArrays := errorArrays h @ [foldl checkNode [] ?ns]\<rparr>"
    by (simp add: foldl_checkNodeOnHeap)
  let ?h2 = "h\<lparr>errorArrays := errorArrays h @ [foldl checkNode [] ?ns]\<rparr>"
  let ?h3 = "?h2\<lparr>stringSets := stringSets h @ [[]]\<rparr>"
  have h4: "foldl (addEdgeEndsOnHeap ?c) ?h3 ?es =
              ?h2\<lparr>stringSets := stringSets h @ [connectedNodeIds ?es]\<rparr>"
    by (simp add: foldl_addEdgeEndsOnHeap connectedNodeIds_def)
  let ?h4 = "?h2\<lparr>stringSets := stringSets h @ [connectedNodeIds ?es]\<rparr>"
  have h5: "foldl (\<lambda>h n. pushError ?a (notConnectedWarning n) h) ?h4 ws =
              ?h4\<lparr>errorArrays := errorArrays h
                     @ [foldl pushNotConnected (foldl checkNode [] ?ns) ws]\<rparr>" for ws
    by (simp add: foldl_pushNotConnectedOnHeap)
  from False show ?thesis
    by (simp add: validateFlowOnHeap_def newErrorArray_def newStringSet_def h2 h4 h5
        validateFlow_def Let_def disconnectedNodes_def)
qed

text \<open>
  Claim C8: two calls of \<open>validateFlow\<close>, one after the other, on the same node and edge
  arrays. The second result reads the same as the first (the same \<open>isValid\<close>, the same
  \<open>errors\<close> in the same order), the second call leaves the first result as it was (the
  two \<open>errors\<close> arrays are different objects), and the calls have no effect on what
  existed before: the node and edge arrays and every array and set allocated earlier are
  unchanged.
\<close>

theorem validateFlowOnHeap_twice:
  assumes "nodesRef < length (nodeArrays h)" and "edgesRef < length (edgeArrays h)"
  shows "case validateFlowOnHeap nodesRef edgesRef h of
           (r1, h1) \<Rightarrow>
             (case validateFlowOnHeap nodesRef edgesRef h1 of
                (r2, h2) \<Rightarrow>
                  readResult h2 r2 = readResult h1 r1
                  \<and> readResult h2 r1 = readResult h1 r1
                  \<and> readResult h1 r1 =
                      validateFlow (nodeArrays h ! nodesRef) (edgeArrays h ! edgesRef)
                  \<and> res_errors r2 \<noteq> res_errors r1
                  \<and> nodeArrays h2 = nodeArrays h
                  \<and> edgeArrays h2 = edgeArrays h
                  \<and> take (length (errorArrays h)) (errorArrays h2) = errorArrays h
                  \<and> take (length (stringSets h)) (stringSets h2) = stringSets h)"
  by (simp add: validateFlowOnHeap_eq readResult_def nth_append)

text \<open>
  Two nodes and a self-loop on \<open>a\<close>: after two calls the second result reads as one
  error and two warnings.
\<close>

theorem validateFlowOnHeap_twice_witness:
  "readResult
     (snd (validateFlowOnHeap 0 0
        (snd (validateFlowOnHeap 0 0
           \<lparr>nodeArrays =
              [[\<lparr>node_id = ''a'', node_type = Some ''agent'', position = (0, 0), data = None\<rparr>,
                \<lparr>node_id = ''b'', node_type = Some ''agent'', position = (50, 50),
                  data = Some \<lparr>data_type = Some ''risk'',
                               data_config = Some [(''limit'', JNum 3)], data_rest = []\<rparr>\<rparr>]],
            edgeArrays = [[\<lparr>edge_id = ''e1'', source = ''a'', target = ''a''\<rparr>]],
            errorArrays = [], stringSets = []\<rparr>))))
     (fst (validateFlowOnHeap 0 0
        (snd (validateFlowOnHeap 0 0
           \<lparr>nodeArrays =
              [[\<lparr>node_id = ''a'', node_type = Some ''agent'', position = (0, 0), data = None\<rparr>,
                \<lparr>node_id = ''b'', node_type = Some ''agent'', position = (50, 50),
                  data = Some \<lparr>data_type = Some ''risk'',
                               data_config = Some [(''limit'', JNum 3)], data_rest = []\<rparr>\<rparr>]],
            edgeArrays = [[\<lparr>edge_id = ''e1'', source = ''a'', target = ''a''\<rparr>]],
            errorArrays = [], stringSets = []\<rparr>))))
   = \<lparr>isValid = False,
      errors =
        [\<lparr>error_type = Error, message = ''Node a has no agent type'', nodeId = Some ''a''\<rparr>,
         \<lparr>error_type = Warning, message = ''Node a (undefined) has no configuration'',
          nodeId = Some ''a''\<rparr>,
         \<lparr>error_type = Warning,
          message = ''Node b (risk) is not connected to any other nodes'',
          nodeId = Some ''b''\<rparr>]\<rparr>"
proof -
  let ?h = "\<lparr>nodeArrays =
              [[\<lparr>node_id = ''a'', node_type = Some ''agent'', position = (0, 0), data = None\<rparr>,
                \<lparr>node_id = ''b'', node_type = Some ''agent'', position = (50, 50),
                  data = Some \<lparr>data_type = Some ''risk'',
                               data_config = Some [(''limit'', JNum 3)], data_rest = []\<rparr>\<rparr>]],
            edgeArrays = [[\<lparr>edge_id = ''e1'', source = ''a'', target = ''a''\<rparr>]],
            errorArrays = [], stringSets = []\<rparr>"
  have n: "0 < length (nodeArrays ?h)" and e: "0 < length (edgeArrays ?h)"
    by simp_all
  have v: "validateFlow (nodeArrays ?h ! 0) (edgeArrays ?h ! 0) =
      \<lparr>isValid = False,
      errors =
        [\<lparr>error_type = Error, message = ''Node a has no agent type'', nodeId = Some ''a''\<rparr>,
         \<lparr>error_type = Warning, message = ''Node a (undefined) has no configuration'',
          nodeId = Some ''a''\<rparr>,
         \<lparr>error_type = Warning,
          message = ''Node b (risk) is not connected to any other nodes'',
          nodeId = Some ''b''\<rparr>]\<rparr>"
    by (simp add: validate_eval)
  from validateFlowOnHeap_twice [OF n e]
  have "readResult (snd (validateFlowOnHeap 0 0 (snd (validateFlowOnHeap 0 0 ?h))))
          (fst (validateFlowOnHeap 0 0 (snd (validateFlowOnHeap 0 0 ?h)))) =
        validateFlow (nodeArrays ?h ! 0) (edgeArrays ?h ! 0)"
    by (simp add: case_prod_unfold)
  with v show ?thesis by simp
qed

section \<open>Properties of the run handlers\<close>

subsection \<open>The sidebar's handler\<close>

lemma truthy_iff: "truthy v = (v \<noteq> None \<and> v \<noteq> Some [])"
  by (cases v) (simp_all add: truthy_def)

text \<open>
  \<open>Sidebar.handleRunFlow\<close> validates the store's current nodes and edges first and
  calls \<open>onRunFlow\<close> exactly when the result is valid, as its last step. When the result
  is not valid it sets the validation message to the failure line followed by the
  messages of the error-severity entries, one per line, arms the 5-second timer that
  clears the message, and does not call \<open>onRunFlow\<close>.
\<close>

lemma handleRunFlow_validates_first:
  "(OnRunFlow \<in> set (handleRunFlow ns es) \<longleftrightarrow> isValid (validateFlow ns es))
   \<and> (isValid (validateFlow ns es) \<longrightarrow>
        handleRunFlow ns es = [SetValidationMessage [], OnRunFlow])
   \<and> (\<not> isValid (validateFlow ns es) \<longrightarrow>
        handleRunFlow ns es =
          [SetValidationMessage
             (crossMark @ '' Flow validation failed:'' @ [CHR 0x0A] @
              join [CHR 0x0A]
                (map message
                   (filter (\<lambda>e. error_type e = Error) (errors (validateFlow ns es))))),
           SetTimeout (SetValidationMessage []) 5000])
   \<and> (OnRunFlow \<in> set (handleRunFlow ns es) \<longrightarrow>
        ns \<noteq> [] \<and> (\<forall>n\<in>set ns. nodeType n \<noteq> None \<and> nodeType n \<noteq> Some []))"
proof (intro conjI impI)
  show run: "OnRunFlow \<in> set (handleRunFlow ns es) \<longleftrightarrow> isValid (validateFlow ns es)"
    by (simp add: handleRunFlow_def Let_def)
  show "handleRunFlow ns es = [SetValidationMessage [], OnRunFlow]"
    if "isValid (validateFlow ns es)"
    using that by (simp add: handleRunFlow_def Let_def)
  show "handleRunFlow ns es =
          [SetValidationMessage
             (crossMark @ '' Flow validation failed:'' @ [CHR 0x0A] @
              join [CHR 0x0A]
                (map message
                   (filter (\<lambda>e. error_type e = Error) (errors (validateFlow ns es))))),
           SetTimeout (SetValidationMessage []) 5000]"
    if "\<not> isValid (validateFlow ns es)"
    using that by (simp add: handleRunFlow_def Let_def)
  assume "OnRunFlow \<in> set (handleRunFlow ns es)"
  with run have v: "isValid (validateFlow ns es)"
    by simp
  show "ns \<noteq> []"
    using v by (auto simp: validateFlow_empty)
  then have "\<forall>n\<in>set ns. truthy (nodeType n)"
    using v by (simp add: validateFlow_isValid_nodes)
  then show "\<forall>n\<in>set ns. nodeType n \<noteq> None \<and> nodeType n \<noteq> Some []"
    by (simp add: truthy_iff)
qed

text \<open>A valid single-node flow is run; the empty flow is not, and its error is shown.\<close>

lemma handleRunFlow_validates_first_example:
  "handleRunFlow
     [\<lparr>node_id = ''a'', node_type = Some ''agent'', position = (0, 0),
        data = Some \<lparr>data_type = Some ''trading'', data_config = None, data_rest = []\<rparr>\<rparr>] []
     = [SetValidationMessage [], OnRunFlow]
   \<and> handleRunFlow [] [] =
       [SetValidationMessage
          (crossMark @ '' Flow validation failed:'' @ [CHR 0x0A]
             @ ''Flow must contain at least one node''),
        SetTimeout (SetValidationMessage []) 5000]"
proof -
  let ?ns = "[\<lparr>node_id = ''a'', node_type = Some ''agent'', position = (0, 0),
        data = Some \<lparr>data_type = Some ''trading'', data_config = None, data_rest = []\<rparr>\<rparr>]"
  have v: "isValid (validateFlow ?ns [])"
    by (simp add: validate_eval)
  have e: "validateFlow [] [] = \<lparr>isValid = False, errors = [emptyFlowError]\<rparr>"
    by (rule validateFlow_empty)
  from v handleRunFlow_validates_first [of ?ns "[]"]
  have 1: "handleRunFlow ?ns [] = [SetValidationMessage [], OnRunFlow]"
    by blast
  from e have "\<not> isValid (validateFlow [] [])"
    by simp
  with handleRunFlow_validates_first [of "[]" "[]"]
  have "handleRunFlow [] [] =
          [SetValidationMessage
             (crossMark @ '' Flow validation failed:'' @ [CHR 0x0A] @
              join [CHR 0x0A]
                (map message
                   (filter (\<lambda>e. error_type e = Error) (errors (validateFlow [] []))))),
           SetTimeout (SetValidationMessage []) 5000]"
    by blast
  then have 2: "handleRunFlow [] [] =
       [SetValidationMessage
          (crossMark @ '' Flow validation failed:'' @ [CHR 0x0A]
             @ ''Flow must contain at least one node''),
        SetTimeout (SetValidationMessage []) 5000]"
    by (simp add: e emptyFlowError_def)
  from 1 2 show ?thesis by simp
qed

text \<open>The message shown is that of \<open>getValidationMessage\<close>.\<close>

lemma handleRunFlow_shows_getValidationMessage:
  "\<not> isValid (validateFlow ns es) \<Longrightarrow>
   hd (handleRunFlow ns es) =
     SetValidationMessage
       (crossMark @ '' Flow validation failed:'' @ [CHR 0x0A]
          @ getValidationMessage (validateFlow ns es))"
  by (simp add: handleRunFlow_def getValidationMessage_def Let_def)

text \<open>Two nodes without an agent type: both messages, joined by a line break.\<close>

lemma handleRunFlow_two_errors:
  "handleRunFlow
     [\<lparr>node_id = ''a'', node_type = Some ''agent'', position = (0, 0), data = None\<rparr>,
      \<lparr>node_id = ''b'', node_type = Some ''agent'', position = (50, 50),
        data = Some \<lparr>data_type = Some [], data_config = Some [(''limit'', JNum 3)],
                     data_rest = []\<rparr>\<rparr>]
     [\<lparr>edge_id = ''e1'', source = ''a'', target = ''b''\<rparr>] =
   [SetValidationMessage
      (crossMark @ '' Flow validation failed:'' @ [CHR 0x0A]
         @ ''Node a has no agent type'' @ [CHR 0x0A] @ ''Node b has no agent type''),
    SetTimeout (SetValidationMessage []) 5000]"
  by (simp add: handleRunFlow_def validate_eval)

subsection \<open>The run path of the application\<close>

text \<open>
  \<open>App.handleRunFlow\<close>, which the header's Run button calls, never looks at the nodes
  and edges: with a flow selected it sends the run request.
\<close>

lemma App_handleRunFlow_ignores_graph:
  "App_handleRunFlow run (state\<lparr>nodes := ns, edges := es\<rparr>) = App_handleRunFlow run state"
  by (simp add: App_handleRunFlow_def runFlow_def)

lemma App_handleRunFlow_runs:
  assumes "currentFlowId state = Some i" and "i \<noteq> []"
  shows "ExecutionRun i \<in> set (App_handleRunFlow run state)"
  using assms
  by (simp add: App_handleRunFlow_def runFlow_def truthy_def interpolate_def Let_def
      split: sum.splits)


section \<open>Properties of the flow store\<close>

lemma updateNodeConfig_nodes:
  "nodes (updateNodeConfig nid config state) =
     map (\<lambda>node. if node_id node = nid
                  then node\<lparr>data := Some ((spreadData (data node))\<lparr>data_config := Some config\<rparr>)\<rparr>
                  else node) (nodes state)"
  by (simp add: updateNodeConfig_def Let_def)

lemma nodeType_spread:
  "nodeType (node\<lparr>data := Some ((spreadData (data node))\<lparr>data_config := Some config\<rparr>)\<rparr>) =
     nodeType node"
  by (simp add: nodeType_def spreadData_def split: option.splits)

lemma data_rest_spread:
  "data_rest ((spreadData d)\<lparr>data_config := Some config\<rparr>) =
     (case d of None \<Rightarrow> [] | Some x \<Rightarrow> data_rest x)"
  by (simp add: spreadData_def split: option.splits)

text \<open>
  Claim C9: \<open>updateNodeConfig\<close> keeps the length and the order of the node list; at
  every index the id, the node type, the position, \<open>data.type\<close> and the remaining
  fields of \<open>data\<close> are what they were; a node with another id is unchanged; a node with
  the given id has \<open>data.config\<close> set to the new configuration; when no node has the id
  the list is unchanged; and no other field of the store changes.
\<close>

theorem updateNodeConfig_frame:
  "length (nodes (updateNodeConfig nid config state)) = length (nodes state)
   \<and> (\<forall>k < length (nodes state).
        node_id (nodes (updateNodeConfig nid config state) ! k) = node_id (nodes state ! k)
        \<and> node_type (nodes (updateNodeConfig nid config state) ! k) = node_type (nodes state ! k)
        \<and> position (nodes (updateNodeConfig nid config state) ! k) = position (nodes state ! k)
        \<and> nodeType (nodes (updateNodeConfig nid config state) ! k) = nodeType (nodes state ! k)
        \<and> (case data (nodes (updateNodeConfig nid config state) ! k) of
              None \<Rightarrow> [] | Some d \<Rightarrow> data_rest d) =
           (case data (nodes state ! k) of None \<Rightarrow> [] | Some d \<Rightarrow> data_rest d)
        \<and> (node_id (nodes state ! k) \<noteq> nid \<longrightarrow>
              nodes (updateNodeConfig nid config state) ! k = nodes state ! k)
        \<and> (node_id (nodes state ! k) = nid \<longrightarrow>
              map_option data_config (data (nodes (updateNodeConfig nid config state) ! k)) =
                Some (Some config)))
   \<and> ((\<forall>n\<in>set (nodes state). node_id n \<noteq> nid) \<longrightarrow>
        nodes (updateNodeConfig nid config state) = nodes state)
   \<and> updateNodeConfig nid config state =
       state\<lparr>nodes := nodes (updateNodeConfig nid config state)\<rparr>"
proof (intro conjI allI impI)
  show "length (nodes (updateNodeConfig nid config state)) = length (nodes state)"
    by (simp add: updateNodeConfig_nodes)
next
  fix k assume k: "k < length (nodes state)"
  show "node_id (nodes (updateNodeConfig nid config state) ! k) = node_id (nodes state ! k)"
    using k by (simp add: updateNodeConfig_nodes)
  show "node_type (nodes (updateNodeConfig nid config state) ! k) = node_type (nodes state ! k)"
    using k by (simp add: updateNodeConfig_nodes)
  show "position (nodes (updateNodeConfig nid config state) ! k) = position (nodes state ! k)"
    using k by (simp add: updateNodeConfig_nodes)
  show "nodeType (nodes (updateNodeConfig nid config state) ! k) = nodeType (nodes state ! k)"
    using k by (simp add: updateNodeConfig_nodes nodeType_spread)
  show "(case data (nodes (updateNodeConfig nid config state) ! k) of
              None \<Rightarrow> [] | Some d \<Rightarrow> data_rest d) =
           (case data (nodes state ! k) of None \<Rightarrow> [] | Some d \<Rightarrow> data_rest d)"
    using k by (simp add: updateNodeConfig_nodes data_rest_spread)
  show "nodes (updateNodeConfig nid config state) ! k = nodes state ! k"
    if "node_id (nodes state ! k) \<noteq> nid"
    using k that by (simp add: updateNodeConfig_nodes)
  show "map_option data_config (data (nodes (updateNodeConfig nid config state) ! k)) =
          Some (Some config)"
    if "node_id (nodes state ! k) = nid"
    using k that by (simp add: updateNodeConfig_nodes)
next
  assume "\<forall>n\<in>set (nodes state). node_id n \<noteq> nid"
  then show "nodes (updateNodeConfig nid config state) = nodes state"
    by (simp add: updateNodeConfig_nodes map_idI)
next
  show "updateNodeConfig nid config state =
       state\<lparr>nodes := nodes (updateNodeConfig nid config state)\<rparr>"
    by (simp add: updateNodeConfig_def Let_def)
qed

text \<open>
  Two nodes \<open>a\<close> and \<open>b\<close>: updating \<open>a\<close> changes its configuration only, updating the
  unknown id \<open>z\<close> changes nothing.
\<close>

theorem updateNodeConfig_frame_witness:
  "nodes (updateNodeConfig ''a'' [(''symbol'', JStr ''BTC'')]
      (initialState\<lparr>nodes :=
         [\<lparr>node_id = ''a'', node_type = Some ''agent'', position = (0, 0),
            data = Some \<lparr>data_type = Some ''trading'', data_config = None,
                         data_rest = [(''label'', JStr ''Trader'')]\<rparr>\<rparr>,
          \<lparr>node_id = ''b'', node_type = Some ''agent'', position = (50, 50),
            data = None\<rparr>]\<rparr>)) =
     [\<lparr>node_id = ''a'', node_type = Some ''agent'', position = (0, 0),
        data = Some \<lparr>data_type = Some ''trading'',
                     data_config = Some [(''symbol'', JStr ''BTC'')],
                     data_rest = [(''label'', JStr ''Trader'')]\<rparr>\<rparr>,
      \<lparr>node_id = ''b'', node_type = Some ''agent'', position = (50, 50),
        data = None\<rparr>]
   \<and> nodes (updateNodeConfig ''z'' [(''symbol'', JStr ''BTC'')]
      (initialState\<lparr>nodes :=
         [\<lparr>node_id = ''a'', node_type = Some ''agent'', position = (0, 0),
            data = Some \<lparr>data_type = Some ''trading'', data_config = None,
                         data_rest = [(''label'', JStr ''Trader'')]\<rparr>\<rparr>,
          \<lparr>node_id = ''b'', node_type = Some ''agent'', position = (50, 50),
            data = None\<rparr>]\<rparr>)) =
     [\<lparr>node_id = ''a'', node_type = Some ''agent'', position = (0, 0),
            data = Some \<lparr>data_type = Some ''trading'', data_config = None,
                         data_rest = [(''label'', JStr ''Trader'')]\<rparr>\<rparr>,
          \<lparr>node_id = ''b'', node_type = Some ''agent'', position = (50, 50),
            data = None\<rparr>]"
proof -
  let ?a = "\<lparr>node_id = ''a'', node_type = Some ''agent'', position = (0, 0),
            data = Some \<lparr>data_type = Some ''trading'', data_config = None,
                         data_rest = [(''label'', JStr ''Trader'')]\<rparr>\<rparr>"
  let ?b = "\<lparr>node_id = ''b'', node_type = Some ''agent'', position = (50, 50),
            data = None\<rparr>"
  let ?s = "initialState\<lparr>nodes := [?a, ?b]\<rparr>"
  let ?c = "[(''symbol'', JStr ''BTC'')]"
  have "\<forall>n\<in>set (nodes ?s). node_id n \<noteq> ''z''"
    by simp
  with updateNodeConfig_frame [of "''z''" ?c ?s]
  have z: "nodes (updateNodeConfig ''z'' ?c ?s) = nodes ?s"
    by blast
  have a: "nodes (updateNodeConfig ''a'' ?c ?s) =
             [?a\<lparr>data := Some \<lparr>data_type = Some ''trading'', data_config = Some ?c,
                                 data_rest = [(''label'', JStr ''Trader'')]\<rparr>\<rparr>, ?b]"
    by (simp add: updateNodeConfig_def Let_def spreadData_def)
  from a z show ?thesis by simp
qed

section \<open>Properties of the WebSocket client\<close>

lemmas ws_eval =
  runEvents_def dispatch_def connect_def connectExecution_def tryCatch_def andThen_def
  hook_onopen_def hook_onclose_def hook_onmessage_def ws_onopen_def ws_onclose_def
  ws_onmessage_def consoleLog_def consoleError_def setIsConnected_def callUser_def
  scheduleReconnect_def setReadyState_def readyStateOf_def wsUrl_def stripScheme_def
  initialWorld_def Let_def

subsection \<open>The message handler\<close>

text \<open>
  Claim C10: \<open>ws.onmessage\<close> never throws, whatever the payload and whatever the
  callback does. When \<open>JSON.parse\<close> rejects the payload the outcome is the old state
  with one more \<open>console.error\<close> line: it does not depend on the callback, which is not
  called, and the sockets, timers and refs are as before. When the payload parses, the
  callback is called once with the parsed value, and an exception it throws is caught
  and logged the same way.
\<close>

theorem ws_onmessage_total:
  "fst (ws_onmessage jsonParse cb eventData w) = None
   \<and> (\<forall>e. jsonParse eventData = Inl e \<longrightarrow>
          ws_onmessage jsonParse cb eventData w =
            (None, w\<lparr>console := console w @ [Err (''Failed to parse WebSocket message: '' @ e)]\<rparr>))
   \<and> (\<forall>d. jsonParse eventData = Inr d \<longrightarrow>
          ws_onmessage jsonParse cb eventData w =
            (case cb d w of
               (None, w') \<Rightarrow> (None, w')
             | (Some e, w') \<Rightarrow>
                 (None, w'\<lparr>console := console w' @
                                [Err (''Failed to parse WebSocket message: '' @ e)]\<rparr>)))"
  by (auto simp: ws_onmessage_def tryCatch_def consoleError_def split: sum.splits prod.splits option.splits)

text \<open>
  A payload that does not parse, with a callback that would throw and send a frame: the
  state only gains the console line.
\<close>

theorem ws_onmessage_total_witness:
  "ws_onmessage (\<lambda>s. Inl ''SyntaxError'') (\<lambda>d w. (Some ''callback ran'', w\<lparr>sent := [(0, ''x'')]\<rparr>))
      ''not json'' (initialWorld ()) =
     (None, (initialWorld ())\<lparr>console := [Err ''Failed to parse WebSocket message: SyntaxError'']\<rparr>)"
proof -
  have "(\<lambda>s. Inl ''SyntaxError'' :: exn + json) ''not json'' = Inl ''SyntaxError''"
    by simp
  with ws_onmessage_total [of "\<lambda>s. Inl ''SyntaxError''" _ "''not json''" "initialWorld ()"]
  show ?thesis
    by (simp add: initialWorld_def)
qed

subsection \<open>Reconnecting\<close>

lemma callUser_returns:
  "cb = None \<or> (\<exists>f. cb = Some f \<and> fst (f (user w)) = None) \<Longrightarrow>
   callUser cb w = (None, w\<lparr>user := (case cb of None \<Rightarrow> user w | Some f \<Rightarrow> snd (f (user w)))\<rparr>)"
  by (auto simp: callUser_def split: option.splits prod.splits)

lemma hook_onclose_schedules:
  assumes cb: "onDisconnect opts = None \<or>
               (\<exists>f. onDisconnect opts = Some f \<and> fst (f (user w)) = None)"
  shows "hook_onclose i opts w =
           (None,
            w\<lparr>console := console w @ [Log (crossMark @ '' Disconnected from execution '' @ i)],
              isConnected := False,
              user := (case onDisconnect opts of None \<Rightarrow> user w | Some f \<Rightarrow> snd (f (user w))),
              timers := timers w @ [(nextTimerId w, 3000)],
              reconnectTimeoutRef := Some (nextTimerId w),
              nextTimerId := Suc (nextTimerId w)\<rparr>)"
proof (cases "onDisconnect opts")
  case None
  then show ?thesis
    by (simp add: hook_onclose_def andThen_def ws_onclose_def consoleLog_def
        setIsConnected_def scheduleReconnect_def callUser_def)
next
  case (Some f)
  with cb have "fst (f (user w)) = None"
    by simp
  then obtain u where "f (user w) = (None, u)"
    by (cases "f (user w)") simp
  with Some show ?thesis
    by (simp add: hook_onclose_def andThen_def ws_onclose_def consoleLog_def
        setIsConnected_def scheduleReconnect_def callUser_def)
qed

lemma filter_fresh_timer:
  "\<forall>p\<in>set ts. fst p < (n::nat) \<Longrightarrow> filter (\<lambda>p. fst p \<noteq> n) ts = ts"
  by (induction ts) auto

lemma message_frame:
  "dispatch newWebSocket jsonParse base executionId opts (MessageArrived k d) w = w' \<Longrightarrow>
     sockets w' = sockets w \<and> sent w' = sent w \<and> timers w' = timers w
     \<and> nextTimerId w' = nextTimerId w \<and> wsRef w' = wsRef w
     \<and> reconnectTimeoutRef w' = reconnectTimeoutRef w \<and> isConnected w' = isConnected w"
  by (auto simp: dispatch_def hook_onmessage_def ws_onmessage_def tryCatch_def callUser_def
      consoleError_def split: sum.splits option.splits prod.splits)

lemma connect_skips_open:
  "readyStateOf w (wsRef w) = Some OPEN \<Longrightarrow> connect newWebSocket base executionId w = (None, w)"
  by (simp add: connect_def split: option.splits)

lemma dispatch_TimerFired:
  "t \<in> fst ` set (timers w) \<Longrightarrow>
   dispatch newWebSocket jsonParse base executionId opts (TimerFired t) w =
     snd (connect newWebSocket base executionId
            (w\<lparr>timers := filter (\<lambda>p. fst p \<noteq> t) (timers w)\<rparr>))"
  by (simp add: dispatch_def)

lemma wsUrl_default:
  "wsUrl (API_BASE None) i = ''ws://localhost:8000/ws/execution/'' @ i"
  by (simp add: wsUrl_def API_BASE_def stripScheme_def)

lemma wsUrl_https:
  "wsUrl (''https://'' @ host) i = ''wss://'' @ host @ ''/ws/execution/'' @ i"
  by (simp add: wsUrl_def stripScheme_def)

lemma connect_opens:
  assumes "i \<noteq> []" and "readyStateOf w (wsRef w) \<noteq> Some OPEN"
    and "newWebSocket (wsUrl base i) = None"
  shows "connect newWebSocket base (Some i) w =
           (None, w\<lparr>sockets := sockets w @ [(wsUrl base i, CONNECTING)],
                     wsRef := Some (length (sockets w))\<rparr>)"
  using assms by (simp add: connect_def tryCatch_def connectExecution_def Let_def)

text \<open>
  Claim C1, as amended. On every close event of a socket the hook created, when the
  optional \<open>onDisconnect\<close> callback returns normally, the close handler arms exactly one
  timeout, with the fixed delay of 3000 ms, and stores its id in \<open>reconnectTimeoutRef\<close>.
  When that timeout fires (with a non-empty execution id and a URL the constructor
  accepts), \<open>connect\<close> does nothing if the current socket is open, and otherwise
  constructs exactly one new socket for the URL \<open>ws(s)://host/ws/execution/{executionId}\<close>,
  the URL of the first connection, and makes it the current one. No frame is sent at
  either step. The hook keeps no sequence number: a message changes only the console and
  the user's state (\<open>message_frame\<close>), neither of which \<open>connect\<close> reads.
\<close>

theorem close_schedules_reconnect:
  assumes cb: "onDisconnect opts = None \<or>
               (\<exists>f. onDisconnect opts = Some f \<and> fst (f (user w)) = None)"
    and fresh: "\<forall>p\<in>set (timers w). fst p < nextTimerId w"
    and i: "i \<noteq> []" and ok: "newWebSocket (wsUrl base i) = None"
  shows "let w1 = dispatch newWebSocket jsonParse base (Some i) opts (SocketClosed k) w;
             w2 = dispatch newWebSocket jsonParse base (Some i) opts
                    (TimerFired (nextTimerId w)) w1
         in timers w1 = timers w @ [(nextTimerId w, 3000)]
          \<and> reconnectTimeoutRef w1 = Some (nextTimerId w)
          \<and> sockets w1 = sockets (setReadyState k CLOSED w)
          \<and> wsRef w1 = wsRef w
          \<and> sent w1 = sent w
          \<and> timers w2 = timers w
          \<and> sent w2 = sent w
          \<and> (if readyStateOf w1 (wsRef w1) = Some OPEN
              then sockets w2 = sockets w1 \<and> wsRef w2 = wsRef w1
              else sockets w2 = sockets w1 @ [(wsUrl base i, CONNECTING)]
                 \<and> wsRef w2 = Some (length (sockets w1)))"
proof -
  let ?c = "setReadyState k CLOSED w"
  let ?w1 = "dispatch newWebSocket jsonParse base (Some i) opts (SocketClosed k) w"
  let ?w2 = "dispatch newWebSocket jsonParse base (Some i) opts (TimerFired (nextTimerId w)) ?w1"
  have c: "console ?c = console w" "user ?c = user w" "timers ?c = timers w"
    "nextTimerId ?c = nextTimerId w" "wsRef ?c = wsRef w" "sent ?c = sent w"
    by (simp_all add: setReadyState_def)
  from cb have "onDisconnect opts = None \<or>
               (\<exists>f. onDisconnect opts = Some f \<and> fst (f (user ?c)) = None)"
    by (simp add: c)
  from hook_onclose_schedules [OF this, of i]
  have w1: "?w1 =
      ?c\<lparr>console := console ?c @ [Log (crossMark @ '' Disconnected from execution '' @ i)],
         isConnected := False,
         user := (case onDisconnect opts of None \<Rightarrow> user ?c | Some f \<Rightarrow> snd (f (user ?c))),
         timers := timers ?c @ [(nextTimerId ?c, 3000)],
         reconnectTimeoutRef := Some (nextTimerId ?c),
         nextTimerId := Suc (nextTimerId ?c)\<rparr>"
    by (simp add: dispatch_def interpolate_def)
  have t1: "timers ?w1 = timers w @ [(nextTimerId w, 3000)]"
    and r1: "reconnectTimeoutRef ?w1 = Some (nextTimerId w)"
    and s1: "sockets ?w1 = sockets ?c"
    and m1: "sent ?w1 = sent w"
    and ref1: "wsRef ?w1 = wsRef w"
    by (simp_all add: w1 c)
  let ?f = "?w1\<lparr>timers := filter (\<lambda>p. fst p \<noteq> nextTimerId w) (timers ?w1)\<rparr>"
  have ft: "filter (\<lambda>p. fst p \<noteq> nextTimerId w) (timers ?w1) = timers w"
    using fresh by (simp add: t1 filter_fresh_timer)
  have rs: "readyStateOf ?f (wsRef ?f) = readyStateOf ?w1 (wsRef ?w1)"
    by (simp add: readyStateOf_def split: option.splits)
  have "nextTimerId w \<in> fst ` set (timers ?w1)"
    by (simp add: t1)
  then have fired: "?w2 = snd (connect newWebSocket base (Some i) ?f)"
    by (rule dispatch_TimerFired)
  have tail: "timers ?w2 = timers w \<and> sent ?w2 = sent w
          \<and> (if readyStateOf ?w1 (wsRef ?w1) = Some OPEN
              then sockets ?w2 = sockets ?w1 \<and> wsRef ?w2 = wsRef ?w1
              else sockets ?w2 = sockets ?w1 @ [(wsUrl base i, CONNECTING)]
                 \<and> wsRef ?w2 = Some (length (sockets ?w1)))"
  proof (cases "readyStateOf ?w1 (wsRef ?w1) = Some OPEN")
    case True
    with rs have "connect newWebSocket base (Some i) ?f = (None, ?f)"
      by (simp add: connect_skips_open)
    with True show ?thesis
      by (simp add: fired ft m1)
  next
    case False
    with rs have notOpen: "readyStateOf ?f (wsRef ?f) \<noteq> Some OPEN"
      by simp
    from i notOpen ok
    have "connect newWebSocket base (Some i) ?f =
            (None, ?f\<lparr>sockets := sockets ?f @ [(wsUrl base i, CONNECTING)],
                      wsRef := Some (length (sockets ?f))\<rparr>)"
      by (rule connect_opens [where w = ?f and newWebSocket = newWebSocket])
    with False show ?thesis
      by (simp add: fired ft m1)
  qed
  from t1 r1 s1 ref1 m1 tail show ?thesis
    by (simp add: Let_def)
qed

theorem close_schedules_reconnect_witness:
  "timers (dispatch (\<lambda>url. None) (\<lambda>payload. Inl ''SyntaxError'') ''http://localhost:8000''
             (Some ''exec-1'')
             \<lparr>onMessage = None, onError = None, onConnect = None, onDisconnect = None\<rparr>
             (SocketClosed 0)
             ((initialWorld ())\<lparr>sockets := [(''ws://localhost:8000/ws/execution/exec-1'', OPEN)],
                                 wsRef := Some 0, isConnected := True\<rparr>)) = [(1, 3000)]
   \<and> sockets
        (dispatch (\<lambda>url. None) (\<lambda>payload. Inl ''SyntaxError'') ''http://localhost:8000''
           (Some ''exec-1'')
           \<lparr>onMessage = None, onError = None, onConnect = None, onDisconnect = None\<rparr>
           (TimerFired 1)
           (dispatch (\<lambda>url. None) (\<lambda>payload. Inl ''SyntaxError'') ''http://localhost:8000''
              (Some ''exec-1'')
              \<lparr>onMessage = None, onError = None, onConnect = None, onDisconnect = None\<rparr>
              (SocketClosed 0)
              ((initialWorld ())\<lparr>sockets := [(''ws://localhost:8000/ws/execution/exec-1'', OPEN)],
                                  wsRef := Some 0, isConnected := True\<rparr>))) =
       [(''ws://localhost:8000/ws/execution/exec-1'', CLOSED),
        (''ws://localhost:8000/ws/execution/exec-1'', CONNECTING)]"
proof -
  let ?opts = "\<lparr>onMessage = None, onError = None, onConnect = None, onDisconnect = None\<rparr>
                 :: unit options"
  let ?w = "(initialWorld ())\<lparr>sockets := [(''ws://localhost:8000/ws/execution/exec-1'', OPEN)],
                               wsRef := Some 0, isConnected := True\<rparr>"
  have cb: "onDisconnect ?opts = None \<or>
            (\<exists>f. onDisconnect ?opts = Some f \<and> fst (f (user ?w)) = None)"
    by simp
  have fresh: "\<forall>p\<in>set (timers ?w). fst p < nextTimerId ?w"
    and n: "nextTimerId ?w = 1" and t: "timers ?w = []"
    and c: "sockets (setReadyState 0 CLOSED ?w) =
              [(''ws://localhost:8000/ws/execution/exec-1'', CLOSED)]"
    and r: "wsRef ?w = Some 0"
    by (simp_all add: initialWorld_def setReadyState_def)
  have i: "''exec-1'' \<noteq> []" by simp
  have u: "wsUrl ''http://localhost:8000'' ''exec-1'' = ''ws://localhost:8000/ws/execution/exec-1''"
    by (simp add: wsUrl_def stripScheme_def)
  note inst = close_schedules_reconnect [where opts = ?opts and w = ?w and i = "''exec-1''"
      and newWebSocket = "\<lambda>url. None" and base = "''http://localhost:8000''"
      and jsonParse = "\<lambda>payload. Inl ''SyntaxError''" and k = 0]
  from inst [OF cb fresh i refl]
  show ?thesis
    unfolding Let_def n t u c r
    by (simp add: readyStateOf_def split: if_splits)
qed

text \<open>
  Claim C1 as it is written says that the reconnect re-subscribes with the last-seen
  sequence number. In the scenario the last message seen carries sequence 4, or 9, and is
  delivered to the callback; the reconnect is the same in both runs: a second socket for
  the URL of the first, which names the execution only, and no frame sent.
\<close>

theorem reconnect_ignores_sequence_counterexample:
  "sockets (reconnectScenario (JObj [(''type'', JStr ''log''), (''sequence'', JNum 4)])) =
     [(''ws://localhost:8000/ws/execution/exec-1'', CLOSED),
      (''ws://localhost:8000/ws/execution/exec-1'', CONNECTING)]
   \<and> sent (reconnectScenario (JObj [(''type'', JStr ''log''), (''sequence'', JNum 4)])) = []
   \<and> user (reconnectScenario (JObj [(''type'', JStr ''log''), (''sequence'', JNum 4)])) =
       [JObj [(''type'', JStr ''log''), (''sequence'', JNum 4)]]
   \<and> sockets (reconnectScenario (JObj [(''type'', JStr ''log''), (''sequence'', JNum 9)])) =
     [(''ws://localhost:8000/ws/execution/exec-1'', CLOSED),
      (''ws://localhost:8000/ws/execution/exec-1'', CONNECTING)]
   \<and> sent (reconnectScenario (JObj [(''type'', JStr ''log''), (''sequence'', JNum 9)])) = []
   \<and> user (reconnectScenario (JObj [(''type'', JStr ''log''), (''sequence'', JNum 9)])) =
       [JObj [(''type'', JStr ''log''), (''sequence'', JNum 9)]]"
  by (simp add: reconnectScenario_def recordingOptions_def ws_eval interpolate_def)

end
